theory Spec2Isabelle
  imports Complex_Main "HOL-Library.Word" "HOL-Library.Sublist"
begin

unbundle bit_operations_syntax

section \<open>Python values\<close>

text \<open>
  A Python \<open>str\<close> is a sequence of Unicode code points, so it is modelled as a list of
  natural numbers. \<open>py\<close> embeds an ASCII literal of the source. Floats (\<open>float32\<close> samples,
  log-probabilities, confidences) are read as the real numbers they denote.
\<close>

type_synonym pystr = "nat list"

definition py :: "string \<Rightarrow> pystr" where
  "py s = map of_char s"

text \<open>
  The exceptions that the modelled code can meet. \<open>OtherError\<close> stands for any exception of
  an external runtime (ONNX, torch, whisper); all of them derive from Python's
  \<open>Exception\<close>, so a handler \<open>except Exception\<close> catches every value of this type.
\<close>

datatype exn =
    IndexError | ValueError | KeyError | TypeError | AttributeError
  | FileNotFoundError | ImportError | OtherError

section \<open>PCM conversion (stt\_service.py, pcm16\_to\_float32)\<close>

text \<open>
  \<^verbatim>\<open>samples = np.frombuffer(pcm_bytes, dtype=np.int16)\<close>: two bytes per sample, read as
  two's complement in the byte order of the machine, taken to be little-endian (low byte
  first) as the protocol's PCM is; a buffer whose size is not a multiple of the element
  size raises \<open>ValueError\<close>.
\<close>

fun int16_samples :: "8 word list \<Rightarrow> 16 word list" where
  "int16_samples (lo # hi # rest) = (push_bit 8 (ucast hi) OR ucast lo) # int16_samples rest"
| "int16_samples _ = []"

definition frombuffer_int16 :: "8 word list \<Rightarrow> exn + 16 word list" where
  "frombuffer_int16 pcm_bytes =
     (if length pcm_bytes mod 2 \<noteq> 0 then Inl ValueError else Inr (int16_samples pcm_bytes))"

text \<open>
  \<^verbatim>\<open>return samples.astype(np.float32) / 32768.0\<close>. Every 16-bit integer and its quotient
  by \<open>2^15\<close> is a \<open>float32\<close> value, so the division is exact.
\<close>

definition pcm16_to_float32 :: "8 word list \<Rightarrow> exn + real list" where
  "pcm16_to_float32 pcm_bytes =
     (case frombuffer_int16 pcm_bytes of
        Inl e \<Rightarrow> Inl e
      | Inr samples \<Rightarrow> Inr (map (\<lambda>s. real_of_int (sint s) / 32768) samples))"

text \<open>The signed value of the little-endian byte pair \<open>lo, hi\<close>, written arithmetically.\<close>

definition le_int16 :: "8 word \<Rightarrow> 8 word \<Rightarrow> int" where
  "le_int16 lo hi =
     (let u = uint lo + 256 * uint hi in if u < 32768 then u else u - 65536)"

section \<open>CTC decoding (indicconformer\_backend.py, IndicConformerCTC.decode\_ctc)\<close>

subsection \<open>The numpy and torch operations the decoder calls\<close>

text \<open>
  The decoder output \<open>logprobs\<close> is a three-dimensional array \<open>[batch, time, vocab]\<close>.
  \<open>rows\<close> holds its cells, batch by batch and frame by frame; \<open>axis2\<close> is the size of the
  last axis, which numpy knows also when the array has no frame at all.
\<close>

record ndarray3 =
  axis2 :: nat
  rows :: "real list list list"

text \<open>\<^verbatim>\<open>row[mask]\<close>: the entries of a row at the positions where the mask is true.\<close>

definition select_mask :: "bool list \<Rightarrow> 'a list \<Rightarrow> 'a list" where
  "select_mask msk row = map snd (filter fst (zip msk row))"

text \<open>
  \<^verbatim>\<open>logprobs[:, :, mask]\<close>: a boolean index whose length differs from the indexed axis
  raises \<open>IndexError\<close>.
\<close>

definition getitem_mask :: "ndarray3 \<Rightarrow> bool list \<Rightarrow> exn + ndarray3" where
  "getitem_mask a msk =
     (if length msk \<noteq> axis2 a then Inl IndexError
      else Inr \<lparr>axis2 = length (filter id msk),
                rows = map (map (select_mask msk)) (rows a)\<rparr>)"

text \<open>
  \<^verbatim>\<open>torch.log_softmax(dim=-1)\<close> normalizes every row, in float32. What torch returns for
  a row is not computed here: it is the parameter \<open>lsm\<close>, the function from a row to the
  row torch returns for it. In exact arithmetic each entry would lose the logarithm of the
  sum of the exponentials of the row; torch rounds, and nothing below assumes anything
  about \<open>lsm\<close>.
\<close>

definition log_softmax_last :: "(real list \<Rightarrow> real list) \<Rightarrow> ndarray3 \<Rightarrow> ndarray3" where
  "log_softmax_last lsm a = a\<lparr>rows := map (map lsm) (rows a)\<rparr>"

text \<open>
  \<^verbatim>\<open>np.argmax\<close> of one row: the index of the first occurrence of the maximum. The scan
  keeps the best index and value so far and replaces them only on a strictly larger entry.
  The cells are finite float32 values, read as the real numbers they are; comparing two
  of them involves no rounding.
\<close>

fun argmax_from :: "real list \<Rightarrow> nat \<Rightarrow> nat \<Rightarrow> real \<Rightarrow> nat" where
  "argmax_from [] i best_i best = best_i"
| "argmax_from (x # xs) i best_i best =
     (if best < x then argmax_from xs (Suc i) i x else argmax_from xs (Suc i) best_i best)"

definition argmax_row :: "real list \<Rightarrow> nat" where
  "argmax_row xs = (case xs of [] \<Rightarrow> 0 | x # rest \<Rightarrow> argmax_from rest 1 0 x)"

text \<open>
  \<^verbatim>\<open>np.argmax(a, axis=-1)\<close>: an empty last axis raises \<open>ValueError\<close> (``attempt to get
  argmax of an empty sequence''), so \<open>argmax_row\<close> only ever sees a non-empty row.
\<close>

definition argmax_last :: "ndarray3 \<Rightarrow> exn + nat list list" where
  "argmax_last a =
     (if axis2 a = 0 then Inl ValueError else Inr (map (map argmax_row) (rows a)))"

text \<open>\<^verbatim>\<open>.squeeze(0)\<close>: the first axis must have size one, else \<open>ValueError\<close>.\<close>

definition squeeze0 :: "'a list \<Rightarrow> exn + 'a" where
  "squeeze0 a = (case a of [p] \<Rightarrow> Inr p | _ \<Rightarrow> Inl ValueError)"

text \<open>
  \<^verbatim>\<open>xs[i]\<close> on a Python list: positions \<open>0\<close> to \<open>len - 1\<close>, the positions \<open>-len\<close> to
  \<open>-1\<close> read from the back, and \<open>IndexError\<close> for every other index.
\<close>

definition getitem :: "'a list \<Rightarrow> int \<Rightarrow> exn + 'a" where
  "getitem xs i =
     (if 0 \<le> i \<and> i < int (length xs) then Inr (xs ! nat i)
      else if i < 0 \<and> - int (length xs) \<le> i then Inr (xs ! nat (int (length xs) + i))
      else Inl IndexError)"

text \<open>
  \<^verbatim>\<open>text.replace(old, new)\<close> for one-character \<open>old\<close> and \<open>new\<close>, and \<^verbatim>\<open>text.strip()\<close>,
  which removes the leading and trailing code points that Python counts as whitespace.
\<close>

definition str_replace1 :: "nat \<Rightarrow> nat \<Rightarrow> pystr \<Rightarrow> pystr" where
  "str_replace1 old new s = map (\<lambda>c. if c = old then new else c) s"

definition isspace :: "nat \<Rightarrow> bool" where
  "isspace c \<longleftrightarrow>
     c \<in> set [9, 10, 11, 12, 13, 28, 29, 30, 31, 32, 133, 160, 5760,
               8192, 8193, 8194, 8195, 8196, 8197, 8198, 8199, 8200, 8201, 8202,
               8232, 8233, 8239, 8287, 12288]"

definition str_strip :: "pystr \<Rightarrow> pystr" where
  "str_strip s = rev (dropWhile isspace (rev (dropWhile isspace s)))"

subsection \<open>decode\_ctc\<close>

text \<open>\<^verbatim>\<open>blank_id = 256\<close>, and the tokens of the list in \<^verbatim>\<open>token not in [...]\<close>.\<close>

definition blank_id :: int where
  "blank_id = 256"

definition special_tokens :: "pystr list" where
  "special_tokens = [py ''<unk>'', py ''<blk>'', py ''<blank>'', py ''|'']"

text \<open>The sub-word marker U+2581 and the space that replaces it.\<close>

definition marker :: nat where
  "marker = 9601"

definition space :: nat where
  "space = 32"

text \<open>
  \<^verbatim>\<open>
  decoded = []
  previous = -1
  for p in predictions:
      if p != previous:
          decoded.append(int(p))
      previous = p
  \<close>
\<close>

fun collapse_loop :: "nat list \<Rightarrow> int \<Rightarrow> int list \<Rightarrow> int list" where
  "collapse_loop [] previous decoded = decoded"
| "collapse_loop (p # predictions) previous decoded =
     collapse_loop predictions (int p)
       (if int p \<noteq> previous then decoded @ [int p] else decoded)"

text \<open>
  \<^verbatim>\<open>
  text_parts = []
  for idx in decoded:
      if idx == blank_id:
          continue
      if idx < len(self.vocab):
          token = self.vocab[idx]
          if token not in ['<unk>', '<blk>', '<blank>', '|']:
              text_parts.append(token)
  \<close>
\<close>

fun text_parts_loop :: "pystr list \<Rightarrow> int list \<Rightarrow> pystr list \<Rightarrow> exn + pystr list" where
  "text_parts_loop vocab [] text_parts = Inr text_parts"
| "text_parts_loop vocab (idx # decoded) text_parts =
     (if idx = blank_id then text_parts_loop vocab decoded text_parts
      else if idx < int (length vocab) then
        (case getitem vocab idx of
           Inl e \<Rightarrow> Inl e
         | Inr token \<Rightarrow>
             if token \<notin> set special_tokens
             then text_parts_loop vocab decoded (text_parts @ [token])
             else text_parts_loop vocab decoded text_parts)
      else text_parts_loop vocab decoded text_parts)"

text \<open>
  The part of \<open>decode_ctc\<close> after the best path \<open>predictions\<close> is known (source lines
  210 to 238): the two loops, then
  \<^verbatim>\<open>text = ''.join(text_parts)\<close> and \<^verbatim>\<open>text.replace(marker, ' ').strip()\<close>.
\<close>

definition decode_path :: "pystr list \<Rightarrow> nat list \<Rightarrow> exn + pystr" where
  "decode_path vocab predictions =
     (let decoded = collapse_loop predictions (- 1) [] in
      case text_parts_loop vocab decoded [] of
        Inl e \<Rightarrow> Inl e
      | Inr text_parts \<Rightarrow> Inr (str_strip (str_replace1 marker space (concat text_parts))))"

text \<open>
  The whole of \<open>decode_ctc\<close>, with torch's log-softmax, \<open>self.language_mask\<close> and
  \<open>self.vocab\<close> as arguments:
  \<^verbatim>\<open>
  mask = np.array(self.language_mask, dtype=bool)
  filtered_logprobs = logprobs[:, :, mask]
  filtered_logprobs = torch.from_numpy(filtered_logprobs).log_softmax(dim=-1).numpy()
  predictions = np.argmax(filtered_logprobs, axis=-1).squeeze(0)
  \<close>
\<close>

definition decode_ctc ::
  "(real list \<Rightarrow> real list) \<Rightarrow> bool list \<Rightarrow> pystr list \<Rightarrow> ndarray3 \<Rightarrow> exn + pystr" where
  "decode_ctc lsm language_mask vocab logprobs =
     (case getitem_mask logprobs language_mask of
        Inl e \<Rightarrow> Inl e
      | Inr filtered_logprobs \<Rightarrow>
          (case argmax_last (log_softmax_last lsm filtered_logprobs) of
             Inl e \<Rightarrow> Inl e
           | Inr best \<Rightarrow>
               (case squeeze0 best of
                  Inl e \<Rightarrow> Inl e
                | Inr predictions \<Rightarrow> decode_path vocab predictions)))"

subsection \<open>The decoding steps as the specification words them\<close>

text \<open>
  Steps (1) to (4) at one time step: the row is filtered to the columns of the mask, the
  filtered row is re-normalized, and the arg-max of the re-normalized row is taken.
\<close>

definition frame_argmax :: "(real list \<Rightarrow> real list) \<Rightarrow> bool list \<Rightarrow> real list \<Rightarrow> nat" where
  "frame_argmax lsm msk row = argmax_row (lsm (select_mask msk row))"

text \<open>The best path: the arg-max of every time step, in order.\<close>

definition ctc_path :: "(real list \<Rightarrow> real list) \<Rightarrow> bool list \<Rightarrow> real list list \<Rightarrow> nat list" where
  "ctc_path lsm msk frames = map (frame_argmax lsm msk) frames"

text \<open>
  Step (5): an index equal to its immediate predecessor is dropped, the first is always
  kept. Each index is paired with its predecessor (none for the first).
\<close>

definition collapse_repeats :: "'a list \<Rightarrow> 'a list" where
  "collapse_repeats xs =
     map snd (filter (\<lambda>(prev, x). prev \<noteq> Some x) (zip (None # map Some xs) xs))"

text \<open>Step (6): drop the designated blank index.\<close>

definition drop_blank :: "int list \<Rightarrow> int list" where
  "drop_blank idxs = filter (\<lambda>idx. idx \<noteq> blank_id) idxs"

text \<open>Step (7) as the specification states it: every surviving index is looked up.\<close>

definition lookup_all :: "pystr list \<Rightarrow> int list \<Rightarrow> pystr list" where
  "lookup_all vocab idxs = map (\<lambda>idx. vocab ! nat idx) idxs"

text \<open>
  Step (7) with the two guards of the source: an index at or beyond the end of the table
  is passed over, and so is an index whose token is a special token.
\<close>

definition lookup_guarded :: "pystr list \<Rightarrow> int list \<Rightarrow> pystr list" where
  "lookup_guarded vocab idxs =
     filter (\<lambda>token. token \<notin> set special_tokens)
       (lookup_all vocab (filter (\<lambda>idx. idx < int (length vocab)) idxs))"

text \<open>Step (8): concatenate, turn the marker into a space, trim.\<close>

definition join_tokens :: "pystr list \<Rightarrow> pystr" where
  "join_tokens tokens = str_strip (str_replace1 marker space (concat tokens))"

text \<open>
  The eight steps on an array, as the specification states them. The inputs the
  specification does not speak of are those on which the library calls raise: a mask that
  does not fit the last axis, a mask without a true entry, a batch size other than one.
\<close>

definition ctc_steps_as_stated ::
  "(real list \<Rightarrow> real list) \<Rightarrow> bool list \<Rightarrow> pystr list \<Rightarrow> ndarray3 \<Rightarrow> exn + pystr" where
  "ctc_steps_as_stated lsm msk vocab logprobs =
     (if length msk \<noteq> axis2 logprobs then Inl IndexError
      else if filter id msk = [] then Inl ValueError
      else case rows logprobs of
        [frames] \<Rightarrow>
          Inr (join_tokens (lookup_all vocab
                 (drop_blank (collapse_repeats (map int (ctc_path lsm msk frames))))))
      | _ \<Rightarrow> Inl ValueError)"

text \<open>The same with the guarded look-up.\<close>

definition ctc_steps_guarded ::
  "(real list \<Rightarrow> real list) \<Rightarrow> bool list \<Rightarrow> pystr list \<Rightarrow> ndarray3 \<Rightarrow> exn + pystr" where
  "ctc_steps_guarded lsm msk vocab logprobs =
     (if length msk \<noteq> axis2 logprobs then Inl IndexError
      else if filter id msk = [] then Inl ValueError
      else case rows logprobs of
        [frames] \<Rightarrow>
          Inr (join_tokens (lookup_guarded vocab
                 (drop_blank (collapse_repeats (map int (ctc_path lsm msk frames))))))
      | _ \<Rightarrow> Inl ValueError)"

section \<open>The STT service (stt\_service.py)\<close>

subsection \<open>The world outside the program\<close>

text \<open>
  A file of the model directory is missing, present but unreadable by its loader, or
  present with a content.
\<close>

datatype 'a asset = Missing | Corrupt | Content 'a

text \<open>
  What the program reads from outside: the four asset files of the IndicConformer model,
  whether the Python modules it imports lazily can be imported, what loading a Whisper
  model does, and what the numeric inference of each model returns for an audio array
  (an exception is a left value). \<open>ctc_inference\<close> stands for \<open>preprocess\<close>,
  \<open>encoder.run\<close> and \<open>decoder.run\<close> of \<open>IndicConformerCTC.transcribe\<close>; its result is
  the \<open>logprobs\<close> array. \<open>torch_log_softmax\<close> is what torch's float32 log-softmax
  returns for a row. \<open>inference_calls\<close> counts the invocations of a backend model's
  \<open>transcribe\<close>.
\<close>

record world =
  encoder_onnx :: "unit asset"
  ctc_decoder_onnx :: "unit asset"
  vocab_json :: "(pystr \<rightharpoonup> pystr list) asset"
  language_masks_json :: "(pystr \<rightharpoonup> bool list) asset"
  indicconformer_module :: bool
  ctc_inference :: "real list \<Rightarrow> int \<Rightarrow> exn + ndarray3"
  torch_log_softmax :: "real list \<Rightarrow> real list"
  faster_whisper_module :: bool
  faster_whisper_load :: "exn + unit"
  faster_whisper_transcribe :: "real list \<Rightarrow> exn + (pystr list \<times> real option \<times> pystr option)"
  whisper_module :: bool
  whisper_load :: "exn + unit"
  whisper_transcribe :: "real list \<Rightarrow> exn + (pystr option \<times> pystr option)"
  inference_calls :: nat

definition path_exists :: "'a asset \<Rightarrow> bool" where
  "path_exists f = (case f of Missing \<Rightarrow> False | _ \<Rightarrow> True)"

subsection \<open>TranscriptionResult\<close>

record TranscriptionResult =
  text' :: pystr
  confidence :: real
  language :: pystr
  backend :: pystr

subsection \<open>IndicConformerCTC: lazy loading and transcribe (indicconformer\_backend.py)\<close>

text \<open>
  The attributes of the object: \<open>None\<close> or a loaded session for \<open>encoder\<close>, \<open>decoder\<close>
  and \<open>mel_transform\<close>; \<open>vocab\<close> and \<open>language_mask\<close> once read.
\<close>

record IndicConformerCTC =
  ctc_language :: pystr
  ctc_encoder :: bool
  ctc_decoder :: bool
  ctc_vocab :: "pystr list option"
  ctc_language_mask :: "bool list option"
  ctc_mel_transform :: bool

definition IndicConformerCTC_init :: "pystr \<Rightarrow> IndicConformerCTC" where
  "IndicConformerCTC_init lang =
     \<lparr>ctc_language = lang, ctc_encoder = False, ctc_decoder = False, ctc_vocab = None,
      ctc_language_mask = None, ctc_mel_transform = False\<rparr>"

text \<open>
  \<open>_load_vocab\<close>: \<open>FileNotFoundError\<close> for a missing file, \<open>ValueError\<close> for a file that
  is not JSON or lacks the language. An exception leaves the attributes assigned so far.
\<close>

definition load_vocab :: "world \<Rightarrow> IndicConformerCTC \<Rightarrow> (exn + unit) \<times> IndicConformerCTC" where
  "load_vocab w m =
     (case vocab_json w of
        Missing \<Rightarrow> (Inl FileNotFoundError, m)
      | Corrupt \<Rightarrow> (Inl ValueError, m)
      | Content vocab_data \<Rightarrow>
          (case vocab_data (ctc_language m) of
             None \<Rightarrow> (Inl ValueError, m)
           | Some v \<Rightarrow>
               (let m1 = m\<lparr>ctc_vocab := Some v\<rparr> in
                case language_masks_json w of
                  Missing \<Rightarrow> (Inl FileNotFoundError, m1)
                | Corrupt \<Rightarrow> (Inl ValueError, m1)
                | Content masks_data \<Rightarrow>
                    (case masks_data (ctc_language m) of
                       None \<Rightarrow> (Inl ValueError, m1)
                     | Some msk \<Rightarrow> (Inr (), m1\<lparr>ctc_language_mask := Some msk\<rparr>)))))"

text \<open>
  \<open>_load_models\<close>: returns at once when \<open>self.encoder\<close> is set; otherwise the encoder
  session, the decoder session, the vocabulary and the mel transform, in this order.
\<close>

definition load_models :: "world \<Rightarrow> IndicConformerCTC \<Rightarrow> (exn + unit) \<times> IndicConformerCTC" where
  "load_models w m =
     (if ctc_encoder m then (Inr (), m)
      else case encoder_onnx w of
        Content _ \<Rightarrow>
          (let m1 = m\<lparr>ctc_encoder := True\<rparr> in
           case ctc_decoder_onnx w of
             Content _ \<Rightarrow>
               (case load_vocab w (m1\<lparr>ctc_decoder := True\<rparr>) of
                  (Inl e, m2) \<Rightarrow> (Inl e, m2)
                | (Inr _, m2) \<Rightarrow> (Inr (), m2\<lparr>ctc_mel_transform := True\<rparr>))
           | _ \<Rightarrow> (Inl OtherError, m1))
      | _ \<Rightarrow> (Inl OtherError, m))"

text \<open>
  \<open>IndicConformerCTC.transcribe\<close>. After a load that failed part-way the encoder is set
  and the rest is \<open>None\<close>: calling the missing mel transform raises \<open>TypeError\<close>, a missing
  decoder or mask \<open>AttributeError\<close>. (At a sample rate other than 16000 the resampling
  comes before the mel transform and may raise first; the one caller of this method
  catches every exception alike.)
\<close>

definition IndicConformerCTC_transcribe ::
  "world \<Rightarrow> IndicConformerCTC \<Rightarrow> real list \<Rightarrow> int \<Rightarrow> (exn + pystr) \<times> IndicConformerCTC" where
  "IndicConformerCTC_transcribe w m audio sr =
     (case load_models w m of
        (Inl e, m1) \<Rightarrow> (Inl e, m1)
      | (Inr _, m1) \<Rightarrow>
          if \<not> ctc_mel_transform m1 then (Inl TypeError, m1)
          else if \<not> ctc_decoder m1 then (Inl AttributeError, m1)
          else case ctc_inference w audio sr of
            Inl e \<Rightarrow> (Inl e, m1)
          | Inr logprobs \<Rightarrow>
              (case (ctc_language_mask m1, ctc_vocab m1) of
                 (Some msk, Some v) \<Rightarrow> (decode_ctc (torch_log_softmax w) msk v logprobs, m1)
               | _ \<Rightarrow> (Inl AttributeError, m1)))"

subsection \<open>IndicConformerBackend\<close>

definition INDIC_LANGUAGES :: "pystr list" where
  "INDIC_LANGUAGES =
     map py [''hi'', ''as'', ''bn'', ''brx'', ''doi'', ''gu'', ''kn'', ''kok'', ''ks'', ''mai'',
             ''ml'', ''mni'', ''mr'', ''ne'', ''or'', ''pa'', ''sa'', ''sat'', ''sd'', ''ta'',
             ''te'', ''ur'']"

record IndicConformerBackend =
  ic_model :: "IndicConformerCTC option"
  ic_language :: pystr

definition IndicConformerBackend_init :: "pystr \<Rightarrow> IndicConformerBackend" where
  "IndicConformerBackend_init lang = \<lparr>ic_model = None, ic_language = lang\<rparr>"

definition IndicConformerBackend_is_available :: "world \<Rightarrow> bool" where
  "IndicConformerBackend_is_available w \<longleftrightarrow>
     path_exists (encoder_onnx w) \<and> path_exists (ctc_decoder_onnx w)
     \<and> path_exists (vocab_json w) \<and> path_exists (language_masks_json w)"

text \<open>
  \<open>_load_model\<close>: the import of the module and the construction of the object; no file is
  read here.
\<close>

definition IndicConformerBackend_load_model ::
  "world \<Rightarrow> IndicConformerBackend \<Rightarrow> (exn + unit) \<times> IndicConformerBackend" where
  "IndicConformerBackend_load_model w b =
     (case ic_model b of
        None \<Rightarrow>
          if indicconformer_module w
          then (Inr (), b\<lparr>ic_model := Some (IndicConformerCTC_init (ic_language b))\<rparr>)
          else (Inl ImportError, b)
      | Some _ \<Rightarrow> (Inr (), b))"

text \<open>
  \<open>transcribe\<close>: \<open>_load_model\<close> stands before the \<open>try\<close>; every exception of
  \<open>self._model.transcribe\<close> is caught and answered with the empty result.
\<close>

definition IndicConformerBackend_transcribe ::
  "world \<Rightarrow> IndicConformerBackend \<Rightarrow> real list \<Rightarrow> int
     \<Rightarrow> (exn + TranscriptionResult) \<times> IndicConformerBackend \<times> world" where
  "IndicConformerBackend_transcribe w b audio sample_rate =
     (case IndicConformerBackend_load_model w b of
        (Inl e, b1) \<Rightarrow> (Inl e, b1, w)
      | (Inr _, b1) \<Rightarrow>
          (case ic_model b1 of
             None \<Rightarrow> (Inl AttributeError, b1, w)
           | Some m \<Rightarrow>
               (let w1 = w\<lparr>inference_calls := inference_calls w + 1\<rparr> in
                case IndicConformerCTC_transcribe w m audio sample_rate of
                  (Inr txt, m1) \<Rightarrow>
                    (Inr \<lparr>text' = str_strip txt, confidence = 85 / 100,
                          language = ic_language b1, backend = py ''indicconformer''\<rparr>,
                     b1\<lparr>ic_model := Some m1\<rparr>, w1)
                | (Inl e, m1) \<Rightarrow>
                    (Inr \<lparr>text' = [], confidence = 0,
                          language = ic_language b1, backend = py ''indicconformer''\<rparr>,
                     b1\<lparr>ic_model := Some m1\<rparr>, w1))))"

subsection \<open>WhisperBackend\<close>

record WhisperBackend =
  wh_model :: bool
  wh_model_size :: pystr
  wh_use_faster :: "bool option"

definition WhisperBackend_init :: "pystr \<Rightarrow> WhisperBackend" where
  "WhisperBackend_init model_size =
     \<lparr>wh_model = False, wh_model_size = model_size, wh_use_faster = None\<rparr>"

definition WhisperBackend_is_available :: "world \<Rightarrow> bool" where
  "WhisperBackend_is_available w \<longleftrightarrow> faster_whisper_module w \<or> whisper_module w"

text \<open>
  \<open>_load_model\<close>: faster-whisper first; only an \<open>ImportError\<close> falls back to whisper, any
  other exception of either loader leaves the method.
\<close>

definition WhisperBackend_load_model ::
  "world \<Rightarrow> WhisperBackend \<Rightarrow> (exn + unit) \<times> WhisperBackend" where
  "WhisperBackend_load_model w b =
     (if wh_model b then (Inr (), b)
      else case (if faster_whisper_module w then faster_whisper_load w else Inl ImportError) of
        Inr _ \<Rightarrow> (Inr (), b\<lparr>wh_model := True, wh_use_faster := Some True\<rparr>)
      | Inl e \<Rightarrow>
          if e = ImportError then
            (if whisper_module w then
               (case whisper_load w of
                  Inr _ \<Rightarrow> (Inr (), b\<lparr>wh_model := True, wh_use_faster := Some False\<rparr>)
                | Inl e' \<Rightarrow> (Inl e', b))
             else (Inl ImportError, b))
          else (Inl e, b))"

text \<open>\<^verbatim>\<open>' '.join(parts)\<close>.\<close>

fun str_join :: "pystr \<Rightarrow> pystr list \<Rightarrow> pystr" where
  "str_join sep [] = []"
| "str_join sep [s] = s"
| "str_join sep (s # t # rest) = s @ sep @ str_join sep (t # rest)"

text \<open>
  The body of the \<open>try\<close> of \<open>WhisperBackend.transcribe\<close>: the text, the confidence and
  the language taken from the model's answer, with the defaults \<open>0.8\<close> and \<open>'en'\<close>.
\<close>

definition whisper_try :: "world \<Rightarrow> WhisperBackend \<Rightarrow> real list \<Rightarrow> exn + TranscriptionResult" where
  "whisper_try w b audio =
     (case wh_use_faster b of
        None \<Rightarrow> Inl AttributeError
      | Some True \<Rightarrow>
          (case faster_whisper_transcribe w audio of
             Inl e \<Rightarrow> Inl e
           | Inr (segments, language_probability, info_language) \<Rightarrow>
               Inr \<lparr>text' = str_strip (str_join (py '' '') segments),
                    confidence = (case language_probability of Some p \<Rightarrow> p | None \<Rightarrow> 8 / 10),
                    language = (case info_language of Some l \<Rightarrow> l | None \<Rightarrow> py ''en''),
                    backend = py ''whisper''\<rparr>)
      | Some False \<Rightarrow>
          (case whisper_transcribe w audio of
             Inl e \<Rightarrow> Inl e
           | Inr (result_text, result_language) \<Rightarrow>
               (case result_text of
                  None \<Rightarrow> Inl KeyError
                | Some txt \<Rightarrow>
                    Inr \<lparr>text' = str_strip txt, confidence = 8 / 10,
                         language = (case result_language of Some l \<Rightarrow> l | None \<Rightarrow> py ''en''),
                         backend = py ''whisper''\<rparr>)))"

definition WhisperBackend_transcribe ::
  "world \<Rightarrow> WhisperBackend \<Rightarrow> real list \<Rightarrow> int
     \<Rightarrow> (exn + TranscriptionResult) \<times> WhisperBackend \<times> world" where
  "WhisperBackend_transcribe w b audio sample_rate =
     (case WhisperBackend_load_model w b of
        (Inl e, b1) \<Rightarrow> (Inl e, b1, w)
      | (Inr _, b1) \<Rightarrow>
          (let w1 = w\<lparr>inference_calls := inference_calls w + 1\<rparr> in
           case whisper_try w b1 audio of
             Inr res \<Rightarrow> (Inr res, b1, w1)
           | Inl e \<Rightarrow>
               (Inr \<lparr>text' = [], confidence = 0, language = py ''en'',
                     backend = py ''whisper''\<rparr>, b1, w1)))"

subsection \<open>STTBackend: the two implementations behind one interface\<close>

datatype STTBackend = IndicConformer IndicConformerBackend | Whisper WhisperBackend

fun name :: "STTBackend \<Rightarrow> pystr" where
  "name (IndicConformer b) = py ''indicconformer''"
| "name (Whisper b) = py ''whisper''"

fun supported_languages :: "STTBackend \<Rightarrow> pystr list" where
  "supported_languages (IndicConformer b) = INDIC_LANGUAGES"
| "supported_languages (Whisper b) = [py ''en'', py ''hi'', py ''auto'']"

fun is_available :: "world \<Rightarrow> STTBackend \<Rightarrow> bool" where
  "is_available w (IndicConformer b) = IndicConformerBackend_is_available w"
| "is_available w (Whisper b) = WhisperBackend_is_available w"

fun STTBackend_transcribe ::
  "world \<Rightarrow> STTBackend \<Rightarrow> real list \<Rightarrow> int \<Rightarrow> (exn + TranscriptionResult) \<times> STTBackend \<times> world" where
  "STTBackend_transcribe w (IndicConformer b) audio sample_rate =
     (case IndicConformerBackend_transcribe w b audio sample_rate of
        (res, b1, w1) \<Rightarrow> (res, IndicConformer b1, w1))"
| "STTBackend_transcribe w (Whisper b) audio sample_rate =
     (case WhisperBackend_transcribe w b audio sample_rate of
        (res, b1, w1) \<Rightarrow> (res, Whisper b1, w1))"

subsection \<open>STTRouter\<close>

record STTRouter =
  backends :: "pystr \<rightharpoonup> STTBackend"
  default_backend :: "pystr option"

text \<open>
  One round of the loop of \<open>_register_backends\<close>: an available backend is stored under
  its name, and the first one stored becomes the default.
\<close>

definition register_backend :: "world \<Rightarrow> STTRouter \<Rightarrow> STTBackend \<Rightarrow> STTRouter" where
  "register_backend w r b =
     (if is_available w b
      then r\<lparr>backends := (backends r)(name b \<mapsto> b),
             default_backend := (case default_backend r of None \<Rightarrow> Some (name b) | Some d \<Rightarrow> Some d)\<rparr>
      else r)"

definition backends_to_try :: "STTBackend list" where
  "backends_to_try =
     [IndicConformer (IndicConformerBackend_init (py ''hi'')),
      Whisper (WhisperBackend_init (py ''base''))]"

definition register_backends :: "world \<Rightarrow> STTRouter \<Rightarrow> STTRouter" where
  "register_backends w r = foldl (register_backend w) r backends_to_try"

text \<open>\<open>STTRouter.__init__\<close>, in the world of the moment of construction.\<close>

definition STTRouter_init :: "world \<Rightarrow> STTRouter" where
  "STTRouter_init w = register_backends w \<lparr>backends = Map.empty, default_backend = None\<rparr>"

text \<open>
  \<open>get_backend_for_language\<close>. The last look-up \<^verbatim>\<open>self.backends[self._default_backend]\<close>
  raises \<open>KeyError\<close> on a name that is not registered; an empty name counts as false in
  \<^verbatim>\<open>if self._default_backend\<close>.
\<close>

definition get_backend_for_language :: "STTRouter \<Rightarrow> pystr \<Rightarrow> exn + STTBackend option" where
  "get_backend_for_language r lang =
     (case (case backends r (py ''indicconformer'') of
              Some b \<Rightarrow> if lang \<in> set (supported_languages b) then Some b else None
            | None \<Rightarrow> None) of
        Some b \<Rightarrow> Inr (Some b)
      | None \<Rightarrow>
          (case (if lang = py ''en'' then backends r (py ''whisper'') else None) of
             Some b \<Rightarrow> Inr (Some b)
           | None \<Rightarrow>
               (case (if lang = py ''auto''
                      then (case backends r (py ''indicconformer'') of
                              Some b \<Rightarrow> Some b
                            | None \<Rightarrow> backends r (py ''whisper''))
                      else None) of
                  Some b \<Rightarrow> Inr (Some b)
                | None \<Rightarrow>
                    (case default_backend r of
                       None \<Rightarrow> Inr None
                     | Some d \<Rightarrow>
                         if d = [] then Inr None
                         else (case backends r d of
                                 None \<Rightarrow> Inl KeyError
                               | Some b \<Rightarrow> Inr (Some b))))))"

text \<open>
  \<open>STTRouter.transcribe\<close>. The backend object is the one the registry holds under the
  backend's own name, so what \<open>backend.transcribe\<close> changes in it (the lazily loaded
  model) is seen in the registry.
\<close>

definition STTRouter_transcribe ::
  "world \<Rightarrow> STTRouter \<Rightarrow> real list \<Rightarrow> pystr \<Rightarrow> int
     \<Rightarrow> (exn + TranscriptionResult) \<times> STTRouter \<times> world" where
  "STTRouter_transcribe w r audio lang sample_rate =
     (case get_backend_for_language r lang of
        Inl e \<Rightarrow> (Inl e, r, w)
      | Inr None \<Rightarrow>
          (Inr \<lparr>text' = [], confidence = 0, language = lang, backend = py ''none''\<rparr>, r, w)
      | Inr (Some b) \<Rightarrow>
          (case STTBackend_transcribe w b audio sample_rate of
             (res, b1, w1) \<Rightarrow> (res, r\<lparr>backends := (backends r)(name b \<mapsto> b1)\<rparr>, w1)))"

subsection \<open>The module's router and the HTTP handler\<close>

text \<open>The module global \<open>_router\<close> and \<open>get_router\<close>, which builds the router once.\<close>

record server =
  router_global :: "STTRouter option"

definition get_router :: "world \<Rightarrow> server \<Rightarrow> STTRouter \<times> server" where
  "get_router w s =
     (case router_global s of
        None \<Rightarrow> (let r = STTRouter_init w in (r, s\<lparr>router_global := Some r\<rparr>))
      | Some r \<Rightarrow> (r, s))"

text \<open>
  A POST request as the handler reads it: the value of
  \<^verbatim>\<open>int(self.headers.get('Content-Length', 0))\<close> (or the \<open>ValueError\<close> of \<open>int\<close>), the two
  optional headers, and what \<^verbatim>\<open>self.rfile.read(n)\<close> yields.
\<close>

record request =
  content_length :: "exn + int"
  x_language :: "pystr option"
  content_type :: "pystr option"
  rfile_read :: "int \<Rightarrow> 8 word list"

text \<open>The JSON answer: the status and the members of the object, in order.\<close>

datatype jvalue = JStr pystr | JNum real | JExn exn

record response =
  status :: nat
  body :: "(pystr \<times> jvalue) list"

text \<open>
  \<^verbatim>\<open>str.lower()\<close>. A header value holds Latin-1 characters only; among them the capital
  letters are A to Z and U+00C0 to U+00DE without the multiplication sign U+00D7, each
  32 below its small letter.
\<close>

definition lower_char :: "nat \<Rightarrow> nat" where
  "lower_char c =
     (if (65 \<le> c \<and> c \<le> 90) \<or> (192 \<le> c \<and> c \<le> 222 \<and> c \<noteq> 215) then c + 32 else c)"

definition str_lower :: "pystr \<Rightarrow> pystr" where
  "str_lower s = map lower_char s"

text \<open>
  \<^verbatim>\<open>np.frombuffer(audio_bytes, dtype=np.float32)\<close>: four bytes per sample. The value of
  four bytes is left to \<open>f32\<close>; a size that is no multiple of four raises \<open>ValueError\<close>.
\<close>

fun float32_samples :: "(8 word list \<Rightarrow> real) \<Rightarrow> 8 word list \<Rightarrow> real list" where
  "float32_samples f32 (a # b # c # d # rest) = f32 [a, b, c, d] # float32_samples f32 rest"
| "float32_samples f32 _ = []"

definition frombuffer_float32 :: "(8 word list \<Rightarrow> real) \<Rightarrow> 8 word list \<Rightarrow> exn + real list" where
  "frombuffer_float32 f32 audio_bytes =
     (if length audio_bytes mod 4 \<noteq> 0 then Inl ValueError
      else Inr (float32_samples f32 audio_bytes))"

definition read_audio :: "(8 word list \<Rightarrow> real) \<Rightarrow> request \<Rightarrow> int \<Rightarrow> exn + real list" where
  "read_audio f32 req n =
     (let audio_bytes = rfile_read req n;
          ctype = (case content_type req of None \<Rightarrow> py ''audio/pcm'' | Some c \<Rightarrow> c)
      in if sublist (py ''float32'') ctype then frombuffer_float32 f32 audio_bytes
         else pcm16_to_float32 audio_bytes)"

definition too_short_response :: "pystr \<Rightarrow> response" where
  "too_short_response lang =
     \<lparr>status = 200,
      body = [(py ''text'', JStr []), (py ''confidence'', JNum 0), (py ''language'', JStr lang),
              (py ''backend'', JStr (py ''none'')),
              (py ''error'', JStr (py ''Audio too short (min 100ms)''))]\<rparr>"

definition result_response :: "TranscriptionResult \<Rightarrow> response" where
  "result_response res =
     \<lparr>status = 200,
      body = [(py ''text'', JStr (text' res)), (py ''confidence'', JNum (confidence res)),
              (py ''language'', JStr (language res)), (py ''backend'', JStr (backend res))]\<rparr>"

definition error_response :: "exn \<Rightarrow> response" where
  "error_response e = \<lparr>status = 500, body = [(py ''error'', JExn e)]\<rparr>"

text \<open>
  \<open>STTHandler._handle_transcribe\<close>. Every exception inside the \<open>try\<close> is answered with
  status 500; what was changed before it stays changed.
\<close>

definition handle_transcribe ::
  "(8 word list \<Rightarrow> real) \<Rightarrow> world \<Rightarrow> server \<Rightarrow> request \<Rightarrow> response \<times> server \<times> world" where
  "handle_transcribe f32 w s req =
     (case content_length req of
        Inl e \<Rightarrow> (error_response e, s, w)
      | Inr n \<Rightarrow>
          if n = 0 then (\<lparr>status = 400, body = [(py ''error'', JStr (py ''No audio data''))]\<rparr>, s, w)
          else
            (let lang = str_lower (case x_language req of None \<Rightarrow> py ''auto'' | Some l \<Rightarrow> l) in
             case read_audio f32 req n of
               Inl e \<Rightarrow> (error_response e, s, w)
             | Inr audio \<Rightarrow>
                 if length audio < 1600 then (too_short_response lang, s, w)
                 else
                   (case get_router w s of
                      (router, s1) \<Rightarrow>
                        (case STTRouter_transcribe w router audio lang 16000 of
                           (Inl e, router1, w1) \<Rightarrow>
                             (error_response e, s1\<lparr>router_global := Some router1\<rparr>, w1)
                         | (Inr res, router1, w1) \<Rightarrow>
                             (result_response res, s1\<lparr>router_global := Some router1\<rparr>, w1)))))"

section \<open>Notions used to state the properties\<close>

text \<open>Two states of one backend object: the same class with the same configuration.\<close>

fun same_backend :: "STTBackend \<Rightarrow> STTBackend \<Rightarrow> bool" where
  "same_backend (IndicConformer a) (IndicConformer b) \<longleftrightarrow> ic_language a = ic_language b"
| "same_backend (Whisper a) (Whisper b) \<longleftrightarrow> wh_model_size a = wh_model_size b"
| "same_backend _ _ \<longleftrightarrow> False"

text \<open>
  The routers that can exist: the one \<open>STTRouter.__init__\<close> builds, in whatever world;
  every state \<open>STTRouter.transcribe\<close> leaves behind, whatever the request and the world
  at the time of the call; and every state the preloading loop of \<open>main\<close> leaves behind,
  which calls \<open>transcribe\<close> on a registered backend directly.
\<close>

inductive reachable :: "STTRouter \<Rightarrow> bool" where
  built: "reachable (STTRouter_init w)"
| called: "reachable r \<Longrightarrow> STTRouter_transcribe w r audio lang sr = (res, r1, w1) \<Longrightarrow> reachable r1"
| preloaded:
    "reachable r \<Longrightarrow> backends r k = Some b \<Longrightarrow>
     STTBackend_transcribe w b audio sr = (res, b1, w1) \<Longrightarrow>
     reachable (r\<lparr>backends := (backends r)(k \<mapsto> b1)\<rparr>)"

text \<open>
  What holds of every such router: a backend is stored under its own name, the
  IndicConformer backend works in Hindi, and the default names a stored backend unless
  nothing is stored.
\<close>

definition registry_inv :: "STTRouter \<Rightarrow> bool" where
  "registry_inv r \<longleftrightarrow>
     (\<forall>k b. backends r k = Some b \<longrightarrow> name b = k)
     \<and> (\<forall>b. backends r (py ''indicconformer'') = Some (IndicConformer b) \<longrightarrow> ic_language b = py ''hi'')
     \<and> (case default_backend r of
           None \<Rightarrow> backends r = Map.empty
         | Some d \<Rightarrow> backends r d \<noteq> None)"

text \<open>The result of \<open>STTRouter.transcribe\<close> when no backend was found.\<close>

definition no_backend_result :: "pystr \<Rightarrow> TranscriptionResult" where
  "no_backend_result lang = \<lparr>text' = [], confidence = 0, language = lang, backend = py ''none''\<rparr>"

text \<open>The name of the backend a language resolves to, if any.\<close>

definition resolved_name :: "STTRouter \<Rightarrow> pystr \<Rightarrow> pystr option" where
  "resolved_name r lang =
     (case get_backend_for_language r lang of
        Inr (Some b) \<Rightarrow> Some (name b)
      | _ \<Rightarrow> None)"

text \<open>
  The assets of the IndicConformer model can be loaded for a language: both ONNX files
  load, and both JSON files are readable and have an entry for the language.
\<close>

definition assets_loadable :: "world \<Rightarrow> pystr \<Rightarrow> bool" where
  "assets_loadable w lang =
     (case (encoder_onnx w, ctc_decoder_onnx w, vocab_json w, language_masks_json w) of
        (Content _, Content _, Content vocab_data, Content masks_data) \<Rightarrow>
          vocab_data lang \<noteq> None \<and> masks_data lang \<noteq> None
      | _ \<Rightarrow> False)"

text \<open>The empty result of a backend whose model call raised.\<close>

definition failed_result :: "pystr \<Rightarrow> pystr \<Rightarrow> TranscriptionResult" where
  "failed_result lang backend_name =
     \<lparr>text' = [], confidence = 0, language = lang, backend = backend_name\<rparr>"

subsection \<open>Sample worlds and requests\<close>

text \<open>
  A world with every asset in place: a Hindi vocabulary of two tokens behind a mask of
  three joint columns, a CTC model that answers every audio with two frames, and
  faster-whisper installed. Every filtered row of the two frames holds the entries 0 and
  -200. In float32 the exponential of -200 is zero, so the sum of the exponentials is 1,
  its logarithm 0, and torch's log-softmax returns such a row as it is; the log-softmax
  of this world returns every row as it is.
\<close>

definition sample_logprobs :: ndarray3 where
  "sample_logprobs = \<lparr>axis2 = 3, rows = [[[0, 5, - 200], [- 200, 5, 0]]]\<rparr>"

definition sample_world :: world where
  "sample_world =
     \<lparr>encoder_onnx = Content (), ctc_decoder_onnx = Content (),
      vocab_json = Content [py ''hi'' \<mapsto> [py ''<unk>'', py ''a'']],
      language_masks_json = Content [py ''hi'' \<mapsto> [True, False, True]],
      indicconformer_module = True,
      ctc_inference = (\<lambda>audio sr. Inr sample_logprobs),
      torch_log_softmax = (\<lambda>row. row),
      faster_whisper_module = True, faster_whisper_load = Inr (),
      faster_whisper_transcribe = (\<lambda>audio. Inr ([py ''hello''], Some (9 / 10), Some (py ''en''))),
      whisper_module = False, whisper_load = Inl ImportError,
      whisper_transcribe = (\<lambda>audio. Inl OtherError),
      inference_calls = 0\<rparr>"

text \<open>The same world without the files of the IndicConformer model.\<close>

definition whisper_only_world :: world where
  "whisper_only_world =
     sample_world\<lparr>encoder_onnx := Missing, ctc_decoder_onnx := Missing,
                  vocab_json := Missing, language_masks_json := Missing\<rparr>"

text \<open>The same world with neither the model files nor a Whisper package.\<close>

definition bare_world :: world where
  "bare_world = whisper_only_world\<lparr>faster_whisper_module := False\<rparr>"

text \<open>A request with a body of \<open>k\<close> silent 16-bit samples, and one with an empty body.\<close>

definition pcm_request :: "nat \<Rightarrow> pystr option \<Rightarrow> request" where
  "pcm_request k lang =
     \<lparr>content_length = Inr (int (2 * k)), x_language = lang, content_type = None,
      rfile_read = (\<lambda>n. replicate (2 * k) 0)\<rparr>"

definition empty_request :: request where
  "empty_request =
     \<lparr>content_length = Inr 0, x_language = None, content_type = None, rfile_read = (\<lambda>n. [])\<rparr>"

text \<open>The sample world with a CTC model whose inference raises.\<close>

definition failing_inference_world :: world where
  "failing_inference_world = sample_world\<lparr>ctc_inference := (\<lambda>audio sr. Inl OtherError)\<rparr>"

text \<open>The sample world with a faster-whisper model whose inference raises.\<close>

definition failing_whisper_world :: world where
  "failing_whisper_world = sample_world\<lparr>faster_whisper_transcribe := (\<lambda>audio. Inl OtherError)\<rparr>"

text \<open>A Whisper backend whose model is loaded, through faster-whisper or through whisper.\<close>

definition loaded_whisper :: "bool \<Rightarrow> WhisperBackend" where
  "loaded_whisper faster =
     \<lparr>wh_model = True, wh_model_size = py ''base'', wh_use_faster = Some faster\<rparr>"

text \<open>
  The model object a call of \<open>IndicConformerBackend.transcribe\<close> works on: the stored
  one, or the fresh one that \<open>_load_model\<close> creates.
\<close>

definition model_object :: "IndicConformerBackend \<Rightarrow> IndicConformerCTC" where
  "model_object b =
     (case ic_model b of None \<Rightarrow> IndicConformerCTC_init (ic_language b) | Some m \<Rightarrow> m)"

text \<open>
  The language \<open>WhisperBackend.transcribe\<close> puts into its result, by the way the model was
  loaded: the language the model's answer carries, and \<open>'en'\<close> when the answer carries
  none, the answer lacks the text, or the call raises.
\<close>

definition whisper_language :: "world \<Rightarrow> bool option \<Rightarrow> real list \<Rightarrow> pystr" where
  "whisper_language w faster audio =
     (case faster of
        None \<Rightarrow> py ''en''
      | Some True \<Rightarrow>
          (case faster_whisper_transcribe w audio of
             Inl e \<Rightarrow> py ''en''
           | Inr (segments, language_probability, info_language) \<Rightarrow>
               (case info_language of None \<Rightarrow> py ''en'' | Some l \<Rightarrow> l))
      | Some False \<Rightarrow>
          (case whisper_transcribe w audio of
             Inl e \<Rightarrow> py ''en''
           | Inr (result_text, result_language) \<Rightarrow>
               (case result_text of
                  None \<Rightarrow> py ''en''
                | Some txt \<Rightarrow> (case result_language of None \<Rightarrow> py ''en'' | Some l \<Rightarrow> l))))"

text \<open>The sample world with a faster-whisper model that reports Hindi.\<close>

definition hindi_whisper_world :: world where
  "hindi_whisper_world =
     sample_world\<lparr>faster_whisper_transcribe :=
       (\<lambda>audio. Inr ([py ''namaste''], Some (9 / 10), Some (py ''hi'')))\<rparr>"

text \<open>The sample world where the module of the IndicConformer model cannot be imported.\<close>

definition no_module_world :: world where
  "no_module_world = sample_world\<lparr>indicconformer_module := False\<rparr>"

text \<open>
  The model object as the sample world loads it, and as a load leaves it that stopped
  after the encoder.
\<close>

definition loaded_ctc :: IndicConformerCTC where
  "loaded_ctc =
     \<lparr>ctc_language = py ''hi'', ctc_encoder = True, ctc_decoder = True,
      ctc_vocab = Some [py ''<unk>'', py ''a''],
      ctc_language_mask = Some [True, False, True], ctc_mel_transform = True\<rparr>"

definition half_loaded_ctc :: IndicConformerCTC where
  "half_loaded_ctc = (IndicConformerCTC_init (py ''hi''))\<lparr>ctc_encoder := True\<rparr>"

section \<open>Properties of the PCM conversion\<close>

lemma pair_word_eq:
  "(push_bit 8 (ucast hi) OR ucast lo :: 16 word) = push_bit 8 (ucast hi) + ucast lo"
  for hi lo :: "8 word"
  using word_cat_eq_push_bit_or [of hi lo, where 'c = 16] word_cat_eq [of hi lo, where 'c = 16]
  by simp

lemma uint_pair:
  "uint (push_bit 8 (ucast hi) OR ucast lo :: 16 word) = uint lo + 256 * uint hi"
  for hi lo :: "8 word"
proof -
  have lo: "0 \<le> uint lo" "uint lo < 256" using uint_lt2p [of lo] by simp_all
  have hi: "0 \<le> uint hi" "uint hi < 256" using uint_lt2p [of hi] by simp_all
  have small: "uint hi mod 65536 = uint hi" "uint lo mod 65536 = uint lo"
    using lo hi by simp_all
  have "uint (push_bit 8 (ucast hi) + ucast lo :: 16 word) = (uint hi * 256 + uint lo) mod 65536"
    by (simp add: uint_word_ariths uint_up_ucast is_up push_bit_eq_mult unsigned_ucast_eq
        take_bit_eq_mod small mod_simps)
  also have "\<dots> = uint hi * 256 + uint lo" using lo hi by simp
  finally show ?thesis by (simp add: pair_word_eq)
qed

lemma twos_complement16:
  assumes "0 \<le> u" "u < 65536"
  shows "(u + 32768) mod 65536 - 32768 = (if u < 32768 then u else u - (65536::int))"
proof (cases "u < 32768")
  case True
  then have "(u + 32768) mod 65536 = u + 32768" using assms by simp
  then show ?thesis using True by simp
next
  case False
  have shift: "u + 32768 = (u - 32768) + 65536" by linarith
  have "(u + 32768) mod 65536 = (u - 32768) mod 65536"
    unfolding shift by (rule mod_add_self2)
  also have "\<dots> = u - 32768" using False assms by simp
  finally show ?thesis using False by simp
qed

lemma sint_pair:
  "sint (push_bit 8 (ucast hi) OR ucast lo :: 16 word) = le_int16 lo hi"
  for hi lo :: "8 word"
proof -
  let ?w = "push_bit 8 (ucast hi) OR ucast lo :: 16 word"
  have lo: "0 \<le> uint lo" "uint lo < 256" using uint_lt2p [of lo] by simp_all
  have hi: "0 \<le> uint hi" "uint hi < 256" using uint_lt2p [of hi] by simp_all
  have range: "0 \<le> uint lo + 256 * uint hi" "uint lo + 256 * uint hi < 65536"
    using lo hi by linarith+
  have "sint ?w = signed_take_bit 15 (uint ?w)" by (simp add: sint_uint)
  also have "\<dots> = take_bit 16 (uint ?w + 32768) - 32768"
    by (simp add: signed_take_bit_eq_take_bit_shift)
  also have "\<dots> = (uint lo + 256 * uint hi + 32768) mod 65536 - 32768"
    by (simp add: uint_pair take_bit_eq_mod)
  also have "\<dots> = le_int16 lo hi"
    unfolding le_int16_def Let_def by (rule twos_complement16 [OF range])
  finally show ?thesis .
qed

lemma length_int16_samples: "length (int16_samples bs) = length bs div 2"
  by (induction bs rule: int16_samples.induct) simp_all

lemma nth_int16_samples:
  "i < length bs div 2 \<Longrightarrow>
   int16_samples bs ! i = push_bit 8 (ucast (bs ! (2 * i + 1))) OR ucast (bs ! (2 * i))"
proof (induction bs arbitrary: i rule: int16_samples.induct)
  case (1 lo hi rest)
  then show ?case by (cases i) simp_all
qed simp_all

lemma sample_range: "- 1 \<le> real_of_int (sint s) / 32768 \<and> real_of_int (sint s) / 32768 < 1"
  for s :: "16 word"
proof -
  have "- 32768 \<le> sint s" "sint s < 32768"
    using sint_ge [of s] sint_lt [of s] by simp_all
  then have "real_of_int (- 32768) \<le> real_of_int (sint s)" "real_of_int (sint s) < real_of_int 32768"
    by (simp_all only: of_int_le_iff of_int_less_iff)
  then show ?thesis by (simp del: of_int_sint)
qed

text \<open>
  Claim C9. For a byte string that holds whole 16-bit samples (an even number of bytes),
  \<open>pcm16_to_float32\<close> returns one value per two bytes; the value at position \<open>i\<close> is the
  two's-complement reading of bytes \<open>2 i\<close> (low) and \<open>2 i + 1\<close> (high) divided by 32768; and
  every value lies in the half-open interval from \<open>-1\<close> to \<open>1\<close>.
\<close>

theorem pcm16_to_float32_samples:
  assumes "even (length pcm_bytes)"
  shows "\<exists>out. pcm16_to_float32 pcm_bytes = Inr out
           \<and> length out = length pcm_bytes div 2
           \<and> (\<forall>i < length out.
                 out ! i = real_of_int (le_int16 (pcm_bytes ! (2 * i)) (pcm_bytes ! (2 * i + 1))) / 32768)
           \<and> (\<forall>y \<in> set out. - 1 \<le> y \<and> y < 1)"
proof -
  let ?out = "map (\<lambda>s. real_of_int (sint s) / 32768) (int16_samples pcm_bytes)"
  have ret: "pcm16_to_float32 pcm_bytes = Inr ?out"
    using assms by (simp add: pcm16_to_float32_def frombuffer_int16_def even_iff_mod_2_eq_zero)
  have len: "length ?out = length pcm_bytes div 2"
    by (simp add: length_int16_samples)
  have nth: "\<forall>i < length ?out.
      ?out ! i = real_of_int (le_int16 (pcm_bytes ! (2 * i)) (pcm_bytes ! (2 * i + 1))) / 32768"
    by (simp add: length_int16_samples nth_int16_samples sint_pair del: of_int_sint)
  have rng: "\<forall>y \<in> set ?out. - 1 \<le> y \<and> y < 1"
    using sample_range by auto
  from ret len nth rng show ?thesis by blast
qed

theorem pcm16_to_float32_samples_witness:
  "even (length [0xFF, 0x7F, 0x00, 0x80 :: 8 word])
   \<and> (\<exists>out. pcm16_to_float32 [0xFF, 0x7F, 0x00, 0x80] = Inr out
          \<and> length out = 2
          \<and> out ! 0 = real_of_int (le_int16 0xFF 0x7F) / 32768
          \<and> out ! 1 = real_of_int (le_int16 0x00 0x80) / 32768
          \<and> out = [32767 / 32768, - 1])"
proof -
  have ev: "even (length [0xFF, 0x7F, 0x00, 0x80 :: 8 word])" by simp
  from pcm16_to_float32_samples [OF ev]
  obtain out where out: "pcm16_to_float32 [0xFF, 0x7F, 0x00, 0x80] = Inr out"
    and len: "length out = length [0xFF, 0x7F, 0x00, 0x80 :: 8 word] div 2"
    and nth: "\<forall>i < length out. out ! i =
        real_of_int (le_int16 ([0xFF, 0x7F, 0x00, 0x80] ! (2 * i))
                              ([0xFF, 0x7F, 0x00, 0x80] ! (2 * i + 1))) / 32768"
    by blast
  have len2: "length out = 2" using len by simp
  have n0: "out ! 0 = real_of_int (le_int16 0xFF 0x7F) / 32768"
    using nth len2 by force
  have n1: "out ! 1 = real_of_int (le_int16 0x00 0x80) / 32768"
    using nth [rule_format, of 1] len2 by simp
  have "out = [out ! 0, out ! 1]"
    using len2 by (cases out; cases "tl out"; cases "tl (tl out)") auto
  then have "out = [32767 / 32768, - 1]"
    using n0 n1 by (simp add: le_int16_def)
  with ev out len2 n0 n1 show ?thesis by blast
qed

section \<open>Properties of the CTC decoder\<close>

subsection \<open>Arg-max\<close>

text \<open>
  \<open>argmax_row\<close> is numpy's arg-max: on a non-empty row it is a position of the row, no
  entry is larger than the one it names, and every earlier entry is strictly smaller.
\<close>

lemma argmax_from_first_max:
  assumes "i = length pre" "best_i < i" "pre ! best_i = best"
    and "\<forall>j < i. pre ! j \<le> best" "\<forall>j < best_i. pre ! j < best"
  shows "argmax_from xs i best_i best < length (pre @ xs)
       \<and> (\<forall>j < length (pre @ xs). (pre @ xs) ! j \<le> (pre @ xs) ! argmax_from xs i best_i best)
       \<and> (\<forall>j < argmax_from xs i best_i best.
             (pre @ xs) ! j < (pre @ xs) ! argmax_from xs i best_i best)"
  using assms
proof (induction xs arbitrary: pre i best_i best)
  case Nil
  then show ?case by simp
next
  case (Cons x xs)
  show ?case
  proof (cases "best < x")
    case True
    have "argmax_from xs (Suc i) i x < length ((pre @ [x]) @ xs)
       \<and> (\<forall>j < length ((pre @ [x]) @ xs).
             ((pre @ [x]) @ xs) ! j \<le> ((pre @ [x]) @ xs) ! argmax_from xs (Suc i) i x)
       \<and> (\<forall>j < argmax_from xs (Suc i) i x.
             ((pre @ [x]) @ xs) ! j < ((pre @ [x]) @ xs) ! argmax_from xs (Suc i) i x)"
    proof (rule Cons.IH)
      show "Suc i = length (pre @ [x])" using Cons.prems(1) by simp
      show "i < Suc i" by simp
      show "(pre @ [x]) ! i = x" using Cons.prems(1) by simp
      show "\<forall>j < Suc i. (pre @ [x]) ! j \<le> x"
        using Cons.prems(1,4) True by (auto simp: nth_append less_Suc_eq)
      show "\<forall>j < i. (pre @ [x]) ! j < x"
        using Cons.prems(1,4) True by (auto simp: nth_append)
    qed
    then show ?thesis using True by simp
  next
    case False
    have "argmax_from xs (Suc i) best_i best < length ((pre @ [x]) @ xs)
       \<and> (\<forall>j < length ((pre @ [x]) @ xs).
             ((pre @ [x]) @ xs) ! j \<le> ((pre @ [x]) @ xs) ! argmax_from xs (Suc i) best_i best)
       \<and> (\<forall>j < argmax_from xs (Suc i) best_i best.
             ((pre @ [x]) @ xs) ! j < ((pre @ [x]) @ xs) ! argmax_from xs (Suc i) best_i best)"
    proof (rule Cons.IH)
      show "Suc i = length (pre @ [x])" using Cons.prems(1) by simp
      show "best_i < Suc i" using Cons.prems(2) by simp
      show "(pre @ [x]) ! best_i = best" using Cons.prems(1,2,3) by (simp add: nth_append)
      show "\<forall>j < Suc i. (pre @ [x]) ! j \<le> best"
        using Cons.prems(1,4) False by (auto simp: nth_append less_Suc_eq)
      show "\<forall>j < best_i. (pre @ [x]) ! j < best"
        using Cons.prems(1,2,5) by (auto simp: nth_append)
    qed
    then show ?thesis using False by simp
  qed
qed

lemma argmax_row_first_max:
  assumes "xs \<noteq> []"
  shows "argmax_row xs < length xs
       \<and> (\<forall>j < length xs. xs ! j \<le> xs ! argmax_row xs)
       \<and> (\<forall>j < argmax_row xs. xs ! j < xs ! argmax_row xs)"
proof -
  from assms obtain x rest where xs: "xs = x # rest" by (cases xs) auto
  have "argmax_from rest 1 0 x < length ([x] @ rest)
       \<and> (\<forall>j < length ([x] @ rest). ([x] @ rest) ! j \<le> ([x] @ rest) ! argmax_from rest 1 0 x)
       \<and> (\<forall>j < argmax_from rest 1 0 x. ([x] @ rest) ! j < ([x] @ rest) ! argmax_from rest 1 0 x)"
    by (rule argmax_from_first_max) simp_all
  then show ?thesis by (simp add: xs argmax_row_def)
qed

subsection \<open>The two loops\<close>

lemma collapse_loop_zip:
  "collapse_loop ps previous decoded =
     decoded @ map snd (filter (\<lambda>(prev, x). prev \<noteq> Some x)
                  (zip (Some previous # map Some (map int ps)) (map int ps)))"
  by (induction ps arbitrary: previous decoded) auto

lemma collapse_loop_repeats: "collapse_loop ps (- 1) [] = collapse_repeats (map int ps)"
  by (cases ps) (simp_all add: collapse_loop_zip collapse_repeats_def)

lemma collapse_zip_remdups_adj:
  "map snd (filter (\<lambda>(prev, x). prev \<noteq> Some x) (zip (Some a # map Some xs) xs))
     = tl (remdups_adj (a # xs))"
  by (induction xs arbitrary: a) auto

text \<open>The collapsing step is the library's removal of adjacent duplicates.\<close>

lemma collapse_repeats_remdups_adj: "collapse_repeats xs = remdups_adj xs"
  by (cases xs) (simp_all add: collapse_repeats_def collapse_zip_remdups_adj)

lemma collapse_repeats_nonneg: "idx \<in> set (collapse_repeats (map int ps)) \<Longrightarrow> 0 \<le> idx"
  by (auto simp: collapse_repeats_remdups_adj)

lemma getitem_in_range: "0 \<le> i \<Longrightarrow> i < int (length xs) \<Longrightarrow> getitem xs i = Inr (xs ! nat i)"
  by (simp add: getitem_def)

lemma text_parts_loop_guarded:
  "(\<And>idx. idx \<in> set decoded \<Longrightarrow> 0 \<le> idx) \<Longrightarrow>
   text_parts_loop vocab decoded text_parts
     = Inr (text_parts @ lookup_guarded vocab (drop_blank decoded))"
  by (induction decoded arbitrary: text_parts)
     (auto simp: lookup_guarded_def lookup_all_def drop_blank_def getitem_in_range)

lemma text_parts_loop_path:
  "text_parts_loop vocab (collapse_loop predictions (- 1) []) []
     = Inr (lookup_guarded vocab (drop_blank (collapse_repeats (map int predictions))))"
  by (simp add: collapse_loop_repeats text_parts_loop_guarded collapse_repeats_nonneg)

lemma decode_path_steps:
  "decode_path vocab predictions =
     Inr (join_tokens (lookup_guarded vocab (drop_blank (collapse_repeats (map int predictions)))))"
  by (simp add: decode_path_def text_parts_loop_path join_tokens_def)

subsection \<open>The whole decoder\<close>

text \<open>
  The array operations of the source, read frame by frame: the three guards are the
  inputs on which \<open>logprobs[:, :, mask]\<close>, \<open>np.argmax\<close> and \<open>squeeze(0)\<close> raise, and
  the best path is the arg-max of the re-normalized filtered row of every frame.
\<close>

lemma decode_ctc_frames:
  "decode_ctc lsm msk vocab logprobs =
     (if length msk \<noteq> axis2 logprobs then Inl IndexError
      else if filter id msk = [] then Inl ValueError
      else case rows logprobs of
        [frames] \<Rightarrow> decode_path vocab (ctc_path lsm msk frames)
      | _ \<Rightarrow> Inl ValueError)"
proof (cases "rows logprobs")
  case Nil
  then show ?thesis
    by (simp add: decode_ctc_def getitem_mask_def argmax_last_def log_softmax_last_def squeeze0_def)
next
  case (Cons frames more)
  then show ?thesis
    by (cases more)
       (simp_all add: decode_ctc_def getitem_mask_def argmax_last_def log_softmax_last_def
          squeeze0_def ctc_path_def frame_argmax_def [abs_def] comp_def)
qed

text \<open>
  The place of the re-normalization matters to the path as soon as the function is not
  one that keeps the order of the entries: for the reversal of a row, the arg-max of the
  re-normalized filtered row differs from the arg-max of the filtered row, and from the
  arg-max of the filtered re-normalized row.
\<close>

lemma frame_argmax_order:
  "frame_argmax rev [True, True, False] [1, 0, 2] = 1
   \<and> argmax_row (select_mask [True, True, False] [1, 0, 2]) = 0
   \<and> argmax_row (select_mask [True, True, False] (rev [1, 0, 2])) = 0"
  by (simp add: frame_argmax_def select_mask_def argmax_row_def)

lemma ctc_path_example:
  "ctc_path (\<lambda>row. row) [True, False, True] [[0, 5, - 200], [- 200, 5, 0]] = [0, 1]"
  by (simp add: ctc_path_def frame_argmax_def select_mask_def argmax_row_def)

lemma decode_path_example: "decode_path [py ''<unk>'', py ''a''] [0, 1] = Inr (py ''a'')"
  by (simp add: decode_path_def getitem_def blank_id_def special_tokens_def py_def
      str_strip_def str_replace1_def isspace_def marker_def space_def)

lemma decode_ctc_example:
  "decode_ctc (\<lambda>row. row) [True, False, True] [py ''<unk>'', py ''a'']
     \<lparr>axis2 = 3, rows = [[[0, 5, - 200], [- 200, 5, 0]]]\<rparr> = Inr (py ''a'')"
proof -
  have "decode_ctc (\<lambda>row. row) [True, False, True] [py ''<unk>'', py ''a'']
          \<lparr>axis2 = 3, rows = [[[0, 5, - 200], [- 200, 5, 0]]]\<rparr>
      = decode_path [py ''<unk>'', py ''a'']
          (ctc_path (\<lambda>row. row) [True, False, True] [[0, 5, - 200], [- 200, 5, 0]])"
    by (simp add: decode_ctc_frames)
  then show ?thesis by (simp only: ctc_path_example decode_path_example)
qed

text \<open>
  Claim C1, as the specification states it, would make \<open>decode_ctc\<close> equal to
  \<open>ctc_steps_as_stated\<close>. It is not: with the vocabulary \<open>['<unk>', 'a']\<close> and a best
  path \<open>[0, 1]\<close> the source passes over the special token and returns \<open>'a'\<close>, where the
  eight steps as stated give \<open>'<unk>a'\<close>. The filtered rows are \<open>[0, -200]\<close> and
  \<open>[-200, 0]\<close>, which torch's float32 log-softmax returns unchanged.
\<close>

theorem decode_ctc_as_stated_counterexample:
  "decode_ctc (\<lambda>row. row) [True, False, True] [py ''<unk>'', py ''a'']
       \<lparr>axis2 = 3, rows = [[[0, 5, - 200], [- 200, 5, 0]]]\<rparr> = Inr (py ''a'')
   \<and> ctc_steps_as_stated (\<lambda>row. row) [True, False, True] [py ''<unk>'', py ''a'']
       \<lparr>axis2 = 3, rows = [[[0, 5, - 200], [- 200, 5, 0]]]\<rparr> = Inr (py ''<unk>a'')
   \<and> decode_ctc (\<lambda>row. row) [True, False, True] [py ''<unk>'', py ''a'']
       \<lparr>axis2 = 3, rows = [[[0, 5, - 200], [- 200, 5, 0]]]\<rparr>
     \<noteq> ctc_steps_as_stated (\<lambda>row. row) [True, False, True] [py ''<unk>'', py ''a'']
       \<lparr>axis2 = 3, rows = [[[0, 5, - 200], [- 200, 5, 0]]]\<rparr>"
proof -
  let ?a = "\<lparr>axis2 = 3, rows = [[[0, 5, - 200], [- 200, 5, 0 :: real]]]\<rparr>"
  have c: "decode_ctc (\<lambda>row. row) [True, False, True] [py ''<unk>'', py ''a''] ?a = Inr (py ''a'')"
    by (rule decode_ctc_example)
  have "join_tokens (lookup_all [py ''<unk>'', py ''a'']
          (drop_blank (collapse_repeats (map int
             (ctc_path (\<lambda>row. row) [True, False, True] [[0, 5, - 200], [- 200, 5, 0]])))))
      = py ''<unk>a''"
    unfolding ctc_path_example
    by (simp add: join_tokens_def lookup_all_def drop_blank_def collapse_repeats_def
        blank_id_def py_def str_strip_def str_replace1_def isspace_def marker_def space_def)
  then have s: "ctc_steps_as_stated (\<lambda>row. row) [True, False, True] [py ''<unk>'', py ''a''] ?a
      = Inr (py ''<unk>a'')"
    by (simp add: ctc_steps_as_stated_def)
  have "py ''a'' \<noteq> py ''<unk>a''" by (simp add: py_def)
  with c s show ?thesis by simp
qed

text \<open>
  Claim C1, amended. Whatever function torch's log-softmax is, \<open>decode_ctc\<close> is the
  composition of the eight steps in the stated order: at every time step the row is
  filtered to the columns of the language mask, the filtered row is re-normalized with
  log-softmax, and the arg-max of the re-normalized row is taken; consecutive repeats of
  the path are collapsed, then the blank index is dropped, the surviving indices are
  looked up, and the tokens are joined with the marker turned into a space and trimmed.
  The look-up step passes over an index at or beyond the end of the vocabulary table and
  an index whose token is one of \<open>'<unk>'\<close>, \<open>'<blk>'\<close>, \<open>'<blank>'\<close>, \<open>'|'\<close>. The equation
  holds for every input, the failing ones included: both sides raise the same exception.
  Since it holds for every function in the place of the log-softmax, a decoder that
  leaves the re-normalization out, or applies it before the filtering, does not satisfy
  it.
\<close>

theorem decode_ctc_steps:
  "decode_ctc lsm language_mask vocab logprobs = ctc_steps_guarded lsm language_mask vocab logprobs"
  by (simp add: decode_ctc_frames ctc_steps_guarded_def decode_path_steps split: list.splits)

text \<open>
  Claim C10, as stated, says that the decoded text never contains a special token. With
  the vocabulary \<open>['<un', 'k>']\<close> and the path \<open>[0, 1]\<close> neither token is special, both are
  kept, and the decoded text is the special token \<open>'<unk>'\<close> itself.
\<close>

theorem decode_path_contains_special_counterexample:
  "decode_path [py ''<un'', py ''k>''] [0, 1] = Inr (py ''<unk>'')
   \<and> py ''<unk>'' \<in> set special_tokens
   \<and> sublist (py ''<unk>'') (py ''<unk>'')"
  by (simp add: decode_path_def getitem_def blank_id_def special_tokens_def py_def
      str_strip_def str_replace1_def isspace_def marker_def space_def)

text \<open>
  Claim C10, amended. For every vocabulary and every arg-max path the second half of
  \<open>decode_ctc\<close> returns (no exception, in particular no \<open>IndexError\<close> of a vocabulary
  look-up): the token loop ends with the tokens of the collapsed path whose index is not
  the blank 256, lies inside the table, and whose token is not special; no token of that
  list is a special token; every index looked up is a position of the table; and the text
  returned is the join of exactly these tokens.
\<close>

theorem decode_path_total:
  "\<exists>text_parts.
      text_parts_loop vocab (collapse_loop predictions (- 1) []) [] = Inr text_parts
    \<and> text_parts =
        filter (\<lambda>token. token \<notin> set special_tokens)
          (map (\<lambda>idx. vocab ! nat idx)
            (filter (\<lambda>idx. idx < int (length vocab))
              (filter (\<lambda>idx. idx \<noteq> 256) (collapse_loop predictions (- 1) []))))
    \<and> set text_parts \<inter> set special_tokens = {}
    \<and> (\<forall>idx \<in> set (filter (\<lambda>idx. idx < int (length vocab))
                      (filter (\<lambda>idx. idx \<noteq> 256) (collapse_loop predictions (- 1) []))).
          0 \<le> idx \<and> nat idx < length vocab)
    \<and> decode_path vocab predictions
        = Inr (str_strip (str_replace1 marker space (concat text_parts)))"
proof -
  let ?decoded = "collapse_loop predictions (- 1) []"
  let ?kept = "filter (\<lambda>idx. idx < int (length vocab)) (filter (\<lambda>idx. idx \<noteq> 256) ?decoded)"
  let ?parts = "filter (\<lambda>token. token \<notin> set special_tokens) (map (\<lambda>idx. vocab ! nat idx) ?kept)"
  have nonneg: "\<And>idx. idx \<in> set ?decoded \<Longrightarrow> 0 \<le> idx"
    by (simp add: collapse_loop_repeats collapse_repeats_nonneg)
  have loop: "text_parts_loop vocab ?decoded [] = Inr ?parts"
    by (simp add: text_parts_loop_guarded nonneg lookup_guarded_def lookup_all_def
        drop_blank_def blank_id_def)
  have disj: "set ?parts \<inter> set special_tokens = {}"
    by auto
  have range: "\<forall>idx \<in> set ?kept. 0 \<le> idx \<and> nat idx < length vocab"
    using nonneg by (auto simp: nat_less_iff)
  have ret: "decode_path vocab predictions
      = Inr (str_strip (str_replace1 marker space (concat ?parts)))"
    by (simp add: decode_path_def loop)
  from loop disj range ret show ?thesis by blast
qed

theorem decode_path_total_witness:
  "\<exists>text_parts.
      text_parts_loop [py ''<unk>'', py ''a'', py ''|''] (collapse_loop [0, 0, 1, 1, 256, 1, 2, 7] (- 1) []) []
        = Inr text_parts
    \<and> text_parts = [py ''a'', py ''a'']
    \<and> decode_path [py ''<unk>'', py ''a'', py ''|''] [0, 0, 1, 1, 256, 1, 2, 7] = Inr (py ''aa'')"
proof -
  from decode_path_total [of "[py ''<unk>'', py ''a'', py ''|'']" "[0, 0, 1, 1, 256, 1, 2, 7]"]
  obtain text_parts where
      loop: "text_parts_loop [py ''<unk>'', py ''a'', py ''|'']
               (collapse_loop [0, 0, 1, 1, 256, 1, 2, 7] (- 1) []) [] = Inr text_parts"
    and parts: "text_parts =
        filter (\<lambda>token. token \<notin> set special_tokens)
          (map (\<lambda>idx. [py ''<unk>'', py ''a'', py ''|''] ! nat idx)
            (filter (\<lambda>idx. idx < int (length [py ''<unk>'', py ''a'', py ''|'']))
              (filter (\<lambda>idx. idx \<noteq> 256) (collapse_loop [0, 0, 1, 1, 256, 1, 2, 7] (- 1) []))))"
    and ret: "decode_path [py ''<unk>'', py ''a'', py ''|''] [0, 0, 1, 1, 256, 1, 2, 7]
        = Inr (str_strip (str_replace1 marker space (concat text_parts)))"
    by blast
  have p: "text_parts = [py ''a'', py ''a'']"
    unfolding parts by (simp add: special_tokens_def py_def)
  have "str_strip (str_replace1 marker space (concat [py ''a'', py ''a''])) = py ''aa''"
    by (simp add: py_def str_strip_def str_replace1_def isspace_def marker_def space_def)
  with loop p ret show ?thesis by simp
qed

section \<open>Properties of the STT service\<close>

subsection \<open>Names and language codes\<close>

lemma py_eq_iff [simp]: "py a = py b \<longleftrightarrow> a = b"
  unfolding py_def using inj_of_char [where 'a = nat] by (simp add: inj_map_eq_map)

lemma py_Nil_iff [simp]: "py a = [] \<longleftrightarrow> a = []" "[] = py a \<longleftrightarrow> a = []"
  by (auto simp: py_def)

lemma name_indicconformer_iff: "name b = py ''indicconformer'' \<longleftrightarrow> (\<exists>x. b = IndicConformer x)"
  by (cases b) simp_all

lemma name_whisper_iff: "name b = py ''whisper'' \<longleftrightarrow> (\<exists>x. b = Whisper x)"
  by (cases b) simp_all

lemma name_not_empty: "name b \<noteq> []"
  by (cases b) simp_all

lemma en_not_indic: "py ''en'' \<notin> set INDIC_LANGUAGES"
  by (simp add: INDIC_LANGUAGES_def)

lemma auto_not_indic: "py ''auto'' \<notin> set INDIC_LANGUAGES"
  by (simp add: INDIC_LANGUAGES_def)

lemma ta_indic: "py ''ta'' \<in> set INDIC_LANGUAGES"
  by (simp add: INDIC_LANGUAGES_def)

subsection \<open>What a backend's transcribe leaves as it is\<close>

lemma same_backend_refl [simp]: "same_backend b b"
  by (cases b) simp_all

lemma same_backend_name: "same_backend a b \<Longrightarrow> name a = name b"
  by (cases a; cases b) simp_all

lemma IndicConformerBackend_load_model_language:
  "IndicConformerBackend_load_model w b = (x, b1) \<Longrightarrow> ic_language b1 = ic_language b"
  by (cases "ic_model b") (auto simp: IndicConformerBackend_load_model_def split: if_splits)

lemma IndicConformerBackend_transcribe_language:
  assumes "IndicConformerBackend_transcribe w b audio sr = (res, b1, w1)"
  shows "ic_language b1 = ic_language b"
proof -
  obtain x b0 where load: "IndicConformerBackend_load_model w b = (x, b0)"
    by (cases "IndicConformerBackend_load_model w b")
  have lang: "ic_language b0 = ic_language b"
    using load by (rule IndicConformerBackend_load_model_language)
  show ?thesis
  proof (cases x)
    case (Inl e)
    then show ?thesis
      using assms load lang by (simp add: IndicConformerBackend_transcribe_def)
  next
    case (Inr u)
    show ?thesis
    proof (cases "ic_model b0")
      case None
      then show ?thesis
        using assms load lang Inr by (simp add: IndicConformerBackend_transcribe_def)
    next
      case (Some m)
      obtain y m1 where run: "IndicConformerCTC_transcribe w m audio sr = (y, m1)"
        by (cases "IndicConformerCTC_transcribe w m audio sr")
      show ?thesis
        using assms load lang Inr Some run
        by (cases y) (auto simp: IndicConformerBackend_transcribe_def Let_def)
    qed
  qed
qed

lemma WhisperBackend_load_model_size:
  "WhisperBackend_load_model w b = (x, b1) \<Longrightarrow> wh_model_size b1 = wh_model_size b"
  unfolding WhisperBackend_load_model_def
  by (cases "wh_model b"; cases "faster_whisper_module w"; cases "faster_whisper_load w";
      cases "whisper_module w"; cases "whisper_load w")
     (auto split: if_splits)

lemma WhisperBackend_transcribe_size:
  assumes "WhisperBackend_transcribe w b audio sr = (res, b1, w1)"
  shows "wh_model_size b1 = wh_model_size b"
proof -
  obtain x b0 where load: "WhisperBackend_load_model w b = (x, b0)"
    by (cases "WhisperBackend_load_model w b")
  have size: "wh_model_size b0 = wh_model_size b"
    using load by (rule WhisperBackend_load_model_size)
  show ?thesis
    using assms load size
    by (cases x; cases "whisper_try w b0 audio")
       (auto simp: WhisperBackend_transcribe_def Let_def)
qed

lemma STTBackend_transcribe_same:
  assumes "STTBackend_transcribe w b audio sr = (res, b1, w1)"
  shows "same_backend b b1"
proof (cases b)
  case (IndicConformer x)
  obtain r y v where run: "IndicConformerBackend_transcribe w x audio sr = (r, y, v)"
    by (cases "IndicConformerBackend_transcribe w x audio sr")
  then show ?thesis
    using assms IndicConformer IndicConformerBackend_transcribe_language [OF run] by auto
next
  case (Whisper x)
  obtain r y v where run: "WhisperBackend_transcribe w x audio sr = (r, y, v)"
    by (cases "WhisperBackend_transcribe w x audio sr")
  then show ?thesis
    using assms Whisper WhisperBackend_transcribe_size [OF run] by auto
qed

subsection \<open>The registry\<close>

lemma STTRouter_init_backends:
  "backends (STTRouter_init w) =
     (\<lambda>k. if k = py ''indicconformer'' \<and> IndicConformerBackend_is_available w
          then Some (IndicConformer (IndicConformerBackend_init (py ''hi'')))
          else if k = py ''whisper'' \<and> WhisperBackend_is_available w
          then Some (Whisper (WhisperBackend_init (py ''base'')))
          else None)"
  by (rule ext)
     (simp add: STTRouter_init_def register_backends_def backends_to_try_def register_backend_def)

lemma STTRouter_init_default:
  "default_backend (STTRouter_init w) =
     (if IndicConformerBackend_is_available w then Some (py ''indicconformer'')
      else if WhisperBackend_is_available w then Some (py ''whisper'')
      else None)"
  by (simp add: STTRouter_init_def register_backends_def backends_to_try_def register_backend_def)

lemma registry_inv_init: "registry_inv (STTRouter_init w)"
  by (auto simp: registry_inv_def STTRouter_init_backends STTRouter_init_default
      IndicConformerBackend_init_def split: if_splits)

lemma registry_inv_name: "registry_inv r \<Longrightarrow> backends r k = Some b \<Longrightarrow> name b = k"
  by (simp add: registry_inv_def)

lemma registry_inv_indic:
  assumes "registry_inv r" "backends r (py ''indicconformer'') = Some b"
  shows "\<exists>x. b = IndicConformer x \<and> ic_language x = py ''hi''"
proof -
  have "name b = py ''indicconformer''" using assms by (rule registry_inv_name)
  then obtain x where "b = IndicConformer x" by (auto simp: name_indicconformer_iff)
  then show ?thesis using assms by (simp add: registry_inv_def)
qed

lemma registry_inv_whisper:
  assumes "registry_inv r" "backends r (py ''whisper'') = Some b"
  shows "\<exists>x. b = Whisper x"
proof -
  have "name b = py ''whisper''" using assms by (rule registry_inv_name)
  then show ?thesis by (simp add: name_whisper_iff)
qed

lemma registry_inv_default_None:
  "registry_inv r \<Longrightarrow> default_backend r = None \<Longrightarrow> backends r k = None"
  by (simp add: registry_inv_def)

lemma registry_inv_default_Some:
  assumes "registry_inv r" "default_backend r = Some d"
  shows "\<exists>b. backends r d = Some b \<and> d \<noteq> []"
proof -
  from assms obtain b where b: "backends r d = Some b" by (auto simp: registry_inv_def)
  then have "name b = d" using assms(1) by (simp add: registry_inv_name)
  then show ?thesis using b name_not_empty [of b] by auto
qed

text \<open>
  The resolution of a language on a router that satisfies the invariant, branch by branch
  of \<open>get_backend_for_language\<close>.
\<close>

lemma resolve_indic:
  assumes "registry_inv r" "backends r (py ''indicconformer'') = Some b" "lang \<in> set INDIC_LANGUAGES"
  shows "get_backend_for_language r lang = Inr (Some b)"
proof -
  from registry_inv_indic [OF assms(1,2)] obtain x where "b = IndicConformer x" by blast
  then show ?thesis using assms by (simp add: get_backend_for_language_def)
qed

lemma resolve_en:
  assumes "registry_inv r" "backends r (py ''whisper'') = Some b"
  shows "get_backend_for_language r (py ''en'') = Inr (Some b)"
proof (cases "backends r (py ''indicconformer'')")
  case None
  then show ?thesis using assms by (simp add: get_backend_for_language_def)
next
  case (Some c)
  from registry_inv_indic [OF assms(1) Some] obtain x where "c = IndicConformer x" by blast
  then show ?thesis
    using assms Some en_not_indic by (simp add: get_backend_for_language_def)
qed

lemma resolve_auto_indic:
  assumes "registry_inv r" "backends r (py ''indicconformer'') = Some b"
  shows "get_backend_for_language r (py ''auto'') = Inr (Some b)"
proof -
  from registry_inv_indic [OF assms] obtain x where "b = IndicConformer x" by blast
  then show ?thesis
    using assms auto_not_indic by (simp add: get_backend_for_language_def)
qed

lemma resolve_auto_whisper:
  assumes "backends r (py ''indicconformer'') = None" "backends r (py ''whisper'') = Some b"
  shows "get_backend_for_language r (py ''auto'') = Inr (Some b)"
  using assms by (simp add: get_backend_for_language_def)

lemma resolve_found_registered:
  assumes "get_backend_for_language r lang = Inr (Some b)"
  shows "\<exists>k. backends r k = Some b"
  using assms unfolding get_backend_for_language_def
  by (cases "backends r (py ''indicconformer'')"; cases "backends r (py ''whisper'')";
      cases "default_backend r")
     (auto split: if_splits option.splits)

lemma resolve_empty:
  assumes "registry_inv r" "default_backend r = None"
  shows "get_backend_for_language r lang = Inr None"
  using registry_inv_default_None [OF assms]
  by (simp add: get_backend_for_language_def assms(2))

lemma resolve_nonempty:
  assumes "registry_inv r" "default_backend r = Some d"
  shows "\<exists>b. get_backend_for_language r lang = Inr (Some b)"
proof -
  from registry_inv_default_Some [OF assms] obtain c where c: "backends r d = Some c" "d \<noteq> []"
    by blast
  show ?thesis
    unfolding get_backend_for_language_def
    by (cases "backends r (py ''indicconformer'')"; cases "backends r (py ''whisper'')")
       (auto simp: assms(2) c)
qed

lemma resolve_returns:
  assumes "registry_inv r"
  shows "\<exists>found. get_backend_for_language r lang = Inr found"
proof (cases "default_backend r")
  case None
  then show ?thesis using resolve_empty [OF assms] by blast
next
  case (Some d)
  then show ?thesis using resolve_nonempty [OF assms Some, of lang] by blast
qed

subsection \<open>What a call of the router changes\<close>

lemma STTRouter_transcribe_found:
  assumes "get_backend_for_language r lang = Inr (Some b)"
    and "STTRouter_transcribe w r audio lang sr = (res, r1, w1)"
  shows "\<exists>b1. STTBackend_transcribe w b audio sr = (res, b1, w1)
             \<and> r1 = r\<lparr>backends := (backends r)(name b \<mapsto> b1)\<rparr>"
proof -
  obtain x b1 v where run: "STTBackend_transcribe w b audio sr = (x, b1, v)"
    by (cases "STTBackend_transcribe w b audio sr")
  then show ?thesis using assms by (simp add: STTRouter_transcribe_def)
qed

lemma STTRouter_transcribe_not_found:
  assumes "get_backend_for_language r lang = Inr None"
  shows "STTRouter_transcribe w r audio lang sr = (Inr (no_backend_result lang), r, w)"
  using assms by (simp add: STTRouter_transcribe_def no_backend_result_def)

lemma STTRouter_transcribe_registry:
  assumes inv: "registry_inv r"
    and run: "STTRouter_transcribe w r audio lang sr = (res, r1, w1)"
  shows "default_backend r1 = default_backend r
       \<and> (\<forall>k. case backends r k of
                 None \<Rightarrow> backends r1 k = None
               | Some b \<Rightarrow> (\<exists>b1. backends r1 k = Some b1 \<and> same_backend b b1))"
proof -
  from resolve_returns [OF inv] obtain found where found: "get_backend_for_language r lang = Inr found"
    by blast
  show ?thesis
  proof (cases found)
    case None
    then have "r1 = r"
      using STTRouter_transcribe_not_found [of r lang w audio sr] found run by simp
    then show ?thesis by (auto split: option.splits)
  next
    case (Some b)
    with found have f: "get_backend_for_language r lang = Inr (Some b)" by simp
    from STTRouter_transcribe_found [OF f run] obtain b1
      where b1: "STTBackend_transcribe w b audio sr = (res, b1, w1)"
        and r1: "r1 = r\<lparr>backends := (backends r)(name b \<mapsto> b1)\<rparr>" by blast
    have same: "same_backend b b1" using b1 by (rule STTBackend_transcribe_same)
    from resolve_found_registered [OF f] obtain k where k: "backends r k = Some b" by blast
    then have nk: "name b = k" using inv by (simp add: registry_inv_name)
    show ?thesis
      using r1 same k nk by (auto split: option.splits)
  qed
qed

lemma registry_inv_transcribe:
  assumes inv: "registry_inv r"
    and run: "STTRouter_transcribe w r audio lang sr = (res, r1, w1)"
  shows "registry_inv r1"
proof -
  from STTRouter_transcribe_registry [OF inv run]
  have d: "default_backend r1 = default_backend r"
    and e: "\<And>k. case backends r k of
                 None \<Rightarrow> backends r1 k = None
               | Some b \<Rightarrow> (\<exists>b1. backends r1 k = Some b1 \<and> same_backend b b1)"
    by blast+
  have names: "\<forall>k b. backends r1 k = Some b \<longrightarrow> name b = k"
  proof (intro allI impI)
    fix k b assume b: "backends r1 k = Some b"
    with e [of k] obtain b0 where b0: "backends r k = Some b0" "same_backend b0 b"
      by (cases "backends r k") auto
    then show "name b = k"
      using inv same_backend_name [of b0 b] by (simp add: registry_inv_name)
  qed
  have hindi: "\<forall>b. backends r1 (py ''indicconformer'') = Some (IndicConformer b) \<longrightarrow> ic_language b = py ''hi''"
  proof (intro allI impI)
    fix b assume b: "backends r1 (py ''indicconformer'') = Some (IndicConformer b)"
    with e [of "py ''indicconformer''"] obtain b0
      where b0: "backends r (py ''indicconformer'') = Some b0" "same_backend b0 (IndicConformer b)"
      by (cases "backends r (py ''indicconformer'')") auto
    from registry_inv_indic [OF inv b0(1)] obtain x where "b0 = IndicConformer x" "ic_language x = py ''hi''"
      by blast
    then show "ic_language b = py ''hi''" using b0(2) by simp
  qed
  have dflt: "case default_backend r1 of None \<Rightarrow> backends r1 = Map.empty | Some d \<Rightarrow> backends r1 d \<noteq> None"
  proof (cases "default_backend r")
    case None
    then have "\<And>k. backends r1 k = None"
      using e registry_inv_default_None [OF inv None] by (auto split: option.splits)
    then show ?thesis using d None by auto
  next
    case (Some dn)
    from registry_inv_default_Some [OF inv Some] obtain c where "backends r dn = Some c" by blast
    then have "backends r1 dn \<noteq> None" using e [of dn] by auto
    then show ?thesis using d Some by simp
  qed
  from names hindi dflt show ?thesis by (simp add: registry_inv_def)
qed

lemma registry_inv_update:
  assumes inv: "registry_inv r" and k: "backends r k = Some b" and same: "same_backend b b1"
  shows "registry_inv (r\<lparr>backends := (backends r)(k \<mapsto> b1)\<rparr>)"
proof -
  let ?r1 = "r\<lparr>backends := (backends r)(k \<mapsto> b1)\<rparr>"
  have nk: "name b1 = k"
    using registry_inv_name [OF inv k] same_backend_name [OF same] by simp
  have names: "\<forall>j c. backends ?r1 j = Some c \<longrightarrow> name c = j"
    using nk registry_inv_name [OF inv] by auto
  have hindi: "\<forall>c. backends ?r1 (py ''indicconformer'') = Some (IndicConformer c) \<longrightarrow>
      ic_language c = py ''hi''"
  proof (intro allI impI)
    fix c assume c: "backends ?r1 (py ''indicconformer'') = Some (IndicConformer c)"
    show "ic_language c = py ''hi''"
    proof (cases "k = py ''indicconformer''")
      case True
      with c have b1: "b1 = IndicConformer c" by simp
      from registry_inv_indic [OF inv] k True obtain x
        where "b = IndicConformer x" "ic_language x = py ''hi''" by blast
      then show ?thesis using same b1 by simp
    next
      case False
      with c have "backends r (py ''indicconformer'') = Some (IndicConformer c)" by simp
      then show ?thesis using registry_inv_indic [OF inv] by auto
    qed
  qed
  have dflt: "case default_backend ?r1 of
                None \<Rightarrow> backends ?r1 = Map.empty
              | Some d \<Rightarrow> backends ?r1 d \<noteq> None"
  proof (cases "default_backend r")
    case None
    then show ?thesis using registry_inv_default_None [OF inv None, of k] k by simp
  next
    case (Some d)
    from registry_inv_default_Some [OF inv Some] show ?thesis using Some by auto
  qed
  from names hindi dflt show ?thesis by (simp add: registry_inv_def)
qed

lemma reachable_inv: "reachable r \<Longrightarrow> registry_inv r"
proof (induction rule: reachable.induct)
  case (built w)
  show ?case by (rule registry_inv_init)
next
  case (called r w audio lang sr res r1 w1)
  then show ?case by (auto intro: registry_inv_transcribe)
next
  case (preloaded r k b w audio sr res b1 w1)
  from preloaded.hyps(3) have "same_backend b b1" by (rule STTBackend_transcribe_same)
  with preloaded.IH preloaded.hyps(2) show ?case by (rule registry_inv_update)
qed

lemma resolved_name_formula:
  assumes "registry_inv r"
  shows "resolved_name r lang =
     (if lang \<in> set INDIC_LANGUAGES \<and> backends r (py ''indicconformer'') \<noteq> None
        then Some (py ''indicconformer'')
      else if lang = py ''en'' \<and> backends r (py ''whisper'') \<noteq> None then Some (py ''whisper'')
      else if lang = py ''auto'' \<and> backends r (py ''indicconformer'') \<noteq> None
        then Some (py ''indicconformer'')
      else if lang = py ''auto'' \<and> backends r (py ''whisper'') \<noteq> None then Some (py ''whisper'')
      else default_backend r)"
proof -
  have ic: "\<And>b. backends r (py ''indicconformer'') = Some b \<Longrightarrow> \<exists>x. b = IndicConformer x"
    using registry_inv_indic [OF assms] by blast
  have wh: "\<And>b. backends r (py ''whisper'') = Some b \<Longrightarrow> \<exists>x. b = Whisper x"
    using registry_inv_whisper [OF assms] by blast
  have dn: "default_backend r = None \<Longrightarrow> backends r (py ''indicconformer'') = None \<and> backends r (py ''whisper'') = None"
    using registry_inv_default_None [OF assms] by blast
  have ds: "\<And>d. default_backend r = Some d \<Longrightarrow> \<exists>b. backends r d = Some b \<and> d \<noteq> [] \<and> name b = d"
    using registry_inv_default_Some [OF assms] registry_inv_name [OF assms] by blast
  show ?thesis
  proof (cases "default_backend r")
    case None
    then show ?thesis using dn by (simp add: resolved_name_def get_backend_for_language_def)
  next
    case (Some d)
    from ds [OF Some] obtain c where c: "backends r d = Some c" "d \<noteq> []" "name c = d" by blast
    show ?thesis
    proof (cases "backends r (py ''indicconformer'')")
      case None
      note icN = None
      show ?thesis
      proof (cases "backends r (py ''whisper'')")
        case None
        then show ?thesis using icN Some c
          by (simp add: resolved_name_def get_backend_for_language_def)
      next
        case (Some y)
        with wh obtain y' where "y = Whisper y'" by blast
        then show ?thesis using icN Some \<open>default_backend r = Some d\<close> c
          by (simp add: resolved_name_def get_backend_for_language_def)
      qed
    next
      case (Some x)
      with ic obtain x' where x': "x = IndicConformer x'" by blast
      note icS = Some
      show ?thesis
      proof (cases "backends r (py ''whisper'')")
        case None
        then show ?thesis using icS x' \<open>default_backend r = Some d\<close> c en_not_indic auto_not_indic
          by (auto simp: resolved_name_def get_backend_for_language_def)
      next
        case (Some y)
        with wh obtain y' where "y = Whisper y'" by blast
        then show ?thesis using icS x' Some \<open>default_backend r = Some d\<close> c en_not_indic auto_not_indic
          by (auto simp: resolved_name_def get_backend_for_language_def)
      qed
    qed
  qed
qed

lemma resolved_name_stable:
  assumes inv: "registry_inv r"
    and run: "STTRouter_transcribe w r audio lang sr = (res, r1, w1)"
  shows "resolved_name r1 l = resolved_name r l"
proof -
  have inv1: "registry_inv r1" using inv run by (rule registry_inv_transcribe)
  from STTRouter_transcribe_registry [OF inv run]
  have d: "default_backend r1 = default_backend r"
    and e: "\<And>k. case backends r k of
                 None \<Rightarrow> backends r1 k = None
               | Some b \<Rightarrow> (\<exists>b1. backends r1 k = Some b1 \<and> same_backend b b1)"
    by blast+
  have same_keys: "backends r1 k \<noteq> None \<longleftrightarrow> backends r k \<noteq> None" for k
    using e [of k] by (cases "backends r k") auto
  show ?thesis
    by (simp only: resolved_name_formula [OF inv] resolved_name_formula [OF inv1] d same_keys)
qed

lemma sample_world_available:
  "IndicConformerBackend_is_available sample_world" "WhisperBackend_is_available sample_world"
  by (simp_all add: IndicConformerBackend_is_available_def WhisperBackend_is_available_def
      sample_world_def path_exists_def)

lemma whisper_only_world_available:
  "\<not> IndicConformerBackend_is_available whisper_only_world"
  "WhisperBackend_is_available whisper_only_world"
  by (simp_all add: IndicConformerBackend_is_available_def WhisperBackend_is_available_def
      whisper_only_world_def sample_world_def path_exists_def)

lemma bare_world_available:
  "\<not> IndicConformerBackend_is_available bare_world"
  "\<not> WhisperBackend_is_available bare_world"
  by (simp_all add: IndicConformerBackend_is_available_def WhisperBackend_is_available_def
      bare_world_def whisper_only_world_def sample_world_def path_exists_def)

text \<open>
  Claim C2. On every router that can exist (built by the constructor, possibly after any
  number of calls): a hint in the Indic backend's list resolves to the backend registered
  as \<open>indicconformer\<close> when there is one; \<open>'en'\<close> resolves to the backend registered as
  \<open>whisper\<close> when there is one; \<open>'auto'\<close> resolves to the \<open>indicconformer\<close> backend when it is
  registered and otherwise to the \<open>whisper\<close> backend when that is registered. The backend
  found carries the name it is registered under.
\<close>

theorem resolve_language_hint:
  assumes "reachable r"
  shows "(\<forall>b. lang \<in> set INDIC_LANGUAGES \<and> backends r (py ''indicconformer'') = Some b \<longrightarrow>
            get_backend_for_language r lang = Inr (Some b) \<and> name b = py ''indicconformer'')
       \<and> (\<forall>b. backends r (py ''whisper'') = Some b \<longrightarrow>
            get_backend_for_language r (py ''en'') = Inr (Some b) \<and> name b = py ''whisper'')
       \<and> (\<forall>b. backends r (py ''indicconformer'') = Some b \<longrightarrow>
            get_backend_for_language r (py ''auto'') = Inr (Some b) \<and> name b = py ''indicconformer'')
       \<and> (\<forall>b. backends r (py ''indicconformer'') = None \<and> backends r (py ''whisper'') = Some b \<longrightarrow>
            get_backend_for_language r (py ''auto'') = Inr (Some b) \<and> name b = py ''whisper'')"
proof -
  have inv: "registry_inv r" using assms by (rule reachable_inv)
  show ?thesis
    using resolve_indic [OF inv] resolve_en [OF inv] resolve_auto_indic [OF inv]
      resolve_auto_whisper [of r] registry_inv_name [OF inv]
    by blast
qed

theorem resolve_language_hint_witness:
  "reachable (STTRouter_init sample_world)
   \<and> py ''ta'' \<in> set INDIC_LANGUAGES
   \<and> backends (STTRouter_init sample_world) (py ''indicconformer'')
       = Some (IndicConformer (IndicConformerBackend_init (py ''hi'')))
   \<and> backends (STTRouter_init sample_world) (py ''whisper'')
       = Some (Whisper (WhisperBackend_init (py ''base'')))
   \<and> get_backend_for_language (STTRouter_init sample_world) (py ''ta'')
       = Inr (Some (IndicConformer (IndicConformerBackend_init (py ''hi''))))
   \<and> get_backend_for_language (STTRouter_init sample_world) (py ''en'')
       = Inr (Some (Whisper (WhisperBackend_init (py ''base''))))
   \<and> get_backend_for_language (STTRouter_init sample_world) (py ''auto'')
       = Inr (Some (IndicConformer (IndicConformerBackend_init (py ''hi''))))
   \<and> reachable (STTRouter_init whisper_only_world)
   \<and> backends (STTRouter_init whisper_only_world) (py ''indicconformer'') = None
   \<and> backends (STTRouter_init whisper_only_world) (py ''whisper'')
       = Some (Whisper (WhisperBackend_init (py ''base'')))
   \<and> get_backend_for_language (STTRouter_init whisper_only_world) (py ''auto'')
       = Inr (Some (Whisper (WhisperBackend_init (py ''base''))))"
proof -
  have r1: "reachable (STTRouter_init sample_world)" by (rule reachable.built)
  have r2: "reachable (STTRouter_init whisper_only_world)" by (rule reachable.built)
  have ic: "backends (STTRouter_init sample_world) (py ''indicconformer'')
       = Some (IndicConformer (IndicConformerBackend_init (py ''hi'')))"
    by (simp add: STTRouter_init_backends sample_world_available)
  have wh: "backends (STTRouter_init sample_world) (py ''whisper'')
       = Some (Whisper (WhisperBackend_init (py ''base'')))"
    by (simp add: STTRouter_init_backends sample_world_available)
  have ic2: "backends (STTRouter_init whisper_only_world) (py ''indicconformer'') = None"
    by (simp add: STTRouter_init_backends whisper_only_world_available)
  have wh2: "backends (STTRouter_init whisper_only_world) (py ''whisper'')
       = Some (Whisper (WhisperBackend_init (py ''base'')))"
    by (simp add: STTRouter_init_backends whisper_only_world_available)
  note a = resolve_language_hint [OF r1, of "py ''ta''"]
  note b = resolve_language_hint [OF r2, of "py ''ta''"]
  from a ic wh ta_indic b ic2 wh2 r1 r2 show ?thesis by simp
qed

lemma find_backends_to_try:
  "map_option name (find (is_available w) backends_to_try) = default_backend (STTRouter_init w)"
  by (simp add: backends_to_try_def STTRouter_init_default)

lemma STTRouter_init_registered_iff:
  "backends (STTRouter_init w) k \<noteq> None
     \<longleftrightarrow> list_ex (\<lambda>b. name b = k \<and> is_available w b) backends_to_try"
  by (auto simp: STTRouter_init_backends backends_to_try_def)

text \<open>
  Claim C7. The registry is filled by the constructor alone, from the list
  \<open>backends_to_try\<close> in its order: a name is registered exactly when a backend of that
  name in the list was available in the world of the construction, and the default is the
  first available one. \<open>get_router\<close> builds the router on the first call only; a later
  call returns the stored router whatever the world has become. On every router that can
  exist, a call of \<open>transcribe\<close>, in whatever world, leaves the default and the set of
  registered names as they are, keeps under every name the same backend object (same
  class, same configuration; only its lazily loaded model may change), and leaves the
  name every language resolves to unchanged; the resolution itself returns and never
  raises.
\<close>

theorem registry_frame:
  assumes "reachable r" and "STTRouter_transcribe w r audio lang sr = (res, r1, w1)"
  shows "default_backend r1 = default_backend r
       \<and> dom (backends r1) = dom (backends r)
       \<and> (\<forall>k b. backends r k = Some b \<longrightarrow> (\<exists>b1. backends r1 k = Some b1 \<and> same_backend b b1))
       \<and> (\<forall>l. resolved_name r1 l = resolved_name r l)
       \<and> (\<exists>found. get_backend_for_language r lang = Inr found)
       \<and> reachable r1
       \<and> (\<forall>w0 k. backends (STTRouter_init w0) k \<noteq> None
               \<longleftrightarrow> list_ex (\<lambda>b. name b = k \<and> is_available w0 b) backends_to_try)
       \<and> (\<forall>w0. default_backend (STTRouter_init w0)
               = map_option name (find (is_available w0) backends_to_try))
       \<and> (\<forall>w0 w2 s. router_global s = None \<longrightarrow>
               get_router w0 s = (STTRouter_init w0, s\<lparr>router_global := Some (STTRouter_init w0)\<rparr>)
               \<and> get_router w2 (snd (get_router w0 s)) = get_router w0 s)
       \<and> (\<forall>w2 s r0. router_global s = Some r0 \<longrightarrow> get_router w2 s = (r0, s))"
proof -
  have inv: "registry_inv r" using assms(1) by (rule reachable_inv)
  from STTRouter_transcribe_registry [OF inv assms(2)]
  have d: "default_backend r1 = default_backend r"
    and e: "\<And>k. case backends r k of
                 None \<Rightarrow> backends r1 k = None
               | Some b \<Rightarrow> (\<exists>b1. backends r1 k = Some b1 \<and> same_backend b b1)"
    by blast+
  have dm: "dom (backends r1) = dom (backends r)"
  proof (rule set_eqI)
    fix k show "k \<in> dom (backends r1) \<longleftrightarrow> k \<in> dom (backends r)"
      using e [of k] by (cases "backends r k") auto
  qed
  have same: "\<forall>k b. backends r k = Some b \<longrightarrow> (\<exists>b1. backends r1 k = Some b1 \<and> same_backend b b1)"
  proof (intro allI impI)
    fix k b assume "backends r k = Some b"
    then show "\<exists>b1. backends r1 k = Some b1 \<and> same_backend b b1" using e [of k] by simp
  qed
  have rn: "\<forall>l. resolved_name r1 l = resolved_name r l"
    using resolved_name_stable [OF inv assms(2)] by blast
  have ret: "\<exists>found. get_backend_for_language r lang = Inr found"
    using inv by (rule resolve_returns)
  have re: "reachable r1" using assms by (rule reachable.called)
  have reg: "\<forall>w0 k. backends (STTRouter_init w0) k \<noteq> None
               \<longleftrightarrow> list_ex (\<lambda>b. name b = k \<and> is_available w0 b) backends_to_try"
    using STTRouter_init_registered_iff by blast
  have dflt: "\<forall>w0. default_backend (STTRouter_init w0)
               = map_option name (find (is_available w0) backends_to_try)"
    by (simp add: find_backends_to_try)
  have once: "\<forall>w0 w2 s. router_global s = None \<longrightarrow>
               get_router w0 s = (STTRouter_init w0, s\<lparr>router_global := Some (STTRouter_init w0)\<rparr>)
               \<and> get_router w2 (snd (get_router w0 s)) = get_router w0 s"
    by (simp add: get_router_def Let_def)
  have kept: "\<forall>w2 s r0. router_global s = Some r0 \<longrightarrow> get_router w2 s = (r0, s)"
    by (simp add: get_router_def)
  from d dm same rn ret re reg dflt once kept show ?thesis by blast
qed

theorem registry_frame_witness:
  "reachable (STTRouter_init sample_world)
   \<and> (\<exists>res r1 w1.
         STTRouter_transcribe whisper_only_world (STTRouter_init sample_world) [0] (py ''ta'') 16000
           = (res, r1, w1)
         \<and> default_backend r1 = Some (py ''indicconformer'')
         \<and> dom (backends r1) = {py ''indicconformer'', py ''whisper''}
         \<and> resolved_name r1 (py ''ta'') = Some (py ''indicconformer'')
         \<and> reachable r1)"
proof -
  let ?r = "STTRouter_init sample_world"
  have re: "reachable ?r" by (rule reachable.built)
  obtain res r1 w1 where run:
    "STTRouter_transcribe whisper_only_world ?r [0] (py ''ta'') 16000 = (res, r1, w1)"
    by (cases "STTRouter_transcribe whisper_only_world ?r [0] (py ''ta'') 16000")
  note frame = registry_frame [OF re run]
  have d0: "default_backend ?r = Some (py ''indicconformer'')"
    by (simp add: STTRouter_init_default sample_world_available)
  have dom0: "dom (backends ?r) = {py ''indicconformer'', py ''whisper''}"
    by (auto simp: STTRouter_init_backends sample_world_available split: if_splits)
  have rn0: "resolved_name ?r (py ''ta'') = Some (py ''indicconformer'')"
    by (simp add: resolved_name_formula [OF registry_inv_init] ta_indic
        STTRouter_init_backends sample_world_available)
  from frame d0 dom0 rn0 have
    "default_backend r1 = Some (py ''indicconformer'')"
    "dom (backends r1) = {py ''indicconformer'', py ''whisper''}"
    "resolved_name r1 (py ''ta'') = Some (py ''indicconformer'')"
    "reachable r1"
    by simp_all
  with re run show ?thesis by blast
qed

subsection \<open>What the backends return\<close>

text \<open>
  \<open>IndicConformerBackend.transcribe\<close> in one piece: either the import fails, or the model
  object (the stored one, or a fresh one) is called once and the call's outcome decides
  between the transcript and the empty result.
\<close>

lemma IndicConformerBackend_transcribe_cases:
  "IndicConformerBackend_transcribe w b audio sr =
     (if ic_model b = None \<and> \<not> indicconformer_module w then (Inl ImportError, b, w)
      else
        (case IndicConformerCTC_transcribe w
                (case ic_model b of None \<Rightarrow> IndicConformerCTC_init (ic_language b) | Some m \<Rightarrow> m)
                audio sr of
           (Inr txt, m1) \<Rightarrow>
             (Inr \<lparr>text' = str_strip txt, confidence = 85 / 100, language = ic_language b,
                   backend = py ''indicconformer''\<rparr>,
              b\<lparr>ic_model := Some m1\<rparr>, w\<lparr>inference_calls := inference_calls w + 1\<rparr>)
         | (Inl e, m1) \<Rightarrow>
             (Inr (failed_result (ic_language b) (py ''indicconformer'')),
              b\<lparr>ic_model := Some m1\<rparr>, w\<lparr>inference_calls := inference_calls w + 1\<rparr>)))"
proof (cases "ic_model b")
  case None
  show ?thesis
  proof (cases "indicconformer_module w")
    case True
    obtain y m1 where run: "IndicConformerCTC_transcribe w (IndicConformerCTC_init (ic_language b)) audio sr = (y, m1)"
      by (cases "IndicConformerCTC_transcribe w (IndicConformerCTC_init (ic_language b)) audio sr")
    show ?thesis
      using None True run
      by (cases y)
         (simp_all add: IndicConformerBackend_transcribe_def IndicConformerBackend_load_model_def
            Let_def failed_result_def)
  next
    case False
    then show ?thesis
      using None
      by (simp add: IndicConformerBackend_transcribe_def IndicConformerBackend_load_model_def)
  qed
next
  case (Some m)
  obtain y m1 where run: "IndicConformerCTC_transcribe w m audio sr = (y, m1)"
    by (cases "IndicConformerCTC_transcribe w m audio sr")
  show ?thesis
    using Some run
    by (cases y)
       (simp_all add: IndicConformerBackend_transcribe_def IndicConformerBackend_load_model_def
          Let_def failed_result_def)
qed

lemma IndicConformerBackend_transcribe_result:
  assumes "IndicConformerBackend_transcribe w b audio sr = (Inr res, b1, w1)"
  shows "language res = ic_language b \<and> backend res = py ''indicconformer''"
proof -
  let ?m = "case ic_model b of None \<Rightarrow> IndicConformerCTC_init (ic_language b) | Some m \<Rightarrow> m"
  obtain y m1 where run: "IndicConformerCTC_transcribe w ?m audio sr = (y, m1)"
    by (cases "IndicConformerCTC_transcribe w ?m audio sr")
  show ?thesis
    using assms run unfolding IndicConformerBackend_transcribe_cases
    by (cases y) (auto simp: failed_result_def split: if_splits)
qed

lemma whisper_try_backend: "whisper_try w b audio = Inr res \<Longrightarrow> backend res = py ''whisper''"
  unfolding whisper_try_def
  by (cases "wh_use_faster b"; cases "faster_whisper_transcribe w audio";
      cases "whisper_transcribe w audio")
     (auto split: if_splits option.splits bool.splits)

lemma WhisperBackend_transcribe_cases:
  "WhisperBackend_transcribe w b audio sr =
     (case WhisperBackend_load_model w b of
        (Inl e, b1) \<Rightarrow> (Inl e, b1, w)
      | (Inr u, b1) \<Rightarrow>
          (Inr (case whisper_try w b1 audio of
                  Inr res \<Rightarrow> res
                | Inl e \<Rightarrow> failed_result (py ''en'') (py ''whisper'')),
           b1, w\<lparr>inference_calls := inference_calls w + 1\<rparr>))"
proof -
  obtain x b1 where load: "WhisperBackend_load_model w b = (x, b1)"
    by (cases "WhisperBackend_load_model w b")
  show ?thesis
    using load
    by (cases x; cases "whisper_try w b1 audio")
       (simp_all add: WhisperBackend_transcribe_def Let_def failed_result_def)
qed

lemma WhisperBackend_transcribe_result:
  assumes "WhisperBackend_transcribe w b audio sr = (Inr res, b1, w1)"
  shows "backend res = py ''whisper''"
proof -
  obtain x b0 where load: "WhisperBackend_load_model w b = (x, b0)"
    by (cases "WhisperBackend_load_model w b")
  show ?thesis
    using assms load whisper_try_backend [of w b0 audio] unfolding WhisperBackend_transcribe_cases
    by (cases x; cases "whisper_try w b0 audio") (auto simp: failed_result_def)
qed

lemma whisper_try_language:
  "whisper_try w b audio = Inr res \<Longrightarrow> language res = whisper_language w (wh_use_faster b) audio"
proof (cases "wh_use_faster b")
  case None
  then show "whisper_try w b audio = Inr res \<Longrightarrow> ?thesis" by (simp add: whisper_try_def)
next
  case (Some faster)
  assume run: "whisper_try w b audio = Inr res"
  show ?thesis
  proof (cases faster)
    case True
    show ?thesis
    proof (cases "faster_whisper_transcribe w audio")
      case (Inl e)
      then show ?thesis using run Some True by (simp add: whisper_try_def)
    next
      case (Inr answer)
      obtain segments p l where a: "answer = (segments, p, l)" by (cases answer)
      show ?thesis
        using run Some True Inr a by (cases l) (auto simp: whisper_try_def whisper_language_def)
    qed
  next
    case False
    show ?thesis
    proof (cases "whisper_transcribe w audio")
      case (Inl e)
      then show ?thesis using run Some False by (simp add: whisper_try_def)
    next
      case (Inr answer)
      obtain t l where a: "answer = (t, l)" by (cases answer)
      show ?thesis
        using run Some False Inr a
        by (cases t; cases l) (auto simp: whisper_try_def whisper_language_def)
    qed
  qed
qed

lemma whisper_try_failed_language:
  "whisper_try w b audio = Inl e \<Longrightarrow> whisper_language w (wh_use_faster b) audio = py ''en''"
proof (cases "wh_use_faster b")
  case None
  then show "whisper_try w b audio = Inl e \<Longrightarrow> ?thesis" by (simp add: whisper_language_def)
next
  case (Some faster)
  assume run: "whisper_try w b audio = Inl e"
  show ?thesis
  proof (cases faster)
    case True
    show ?thesis
    proof (cases "faster_whisper_transcribe w audio")
      case (Inl e')
      then show ?thesis using Some True by (simp add: whisper_language_def)
    next
      case (Inr answer)
      obtain segments p l where a: "answer = (segments, p, l)" by (cases answer)
      show ?thesis using run Some True Inr a by (simp add: whisper_try_def)
    qed
  next
    case False
    show ?thesis
    proof (cases "whisper_transcribe w audio")
      case (Inl e')
      then show ?thesis using Some False by (simp add: whisper_language_def)
    next
      case (Inr answer)
      obtain t l where a: "answer = (t, l)" by (cases answer)
      show ?thesis
        using run Some False Inr a by (cases t) (auto simp: whisper_try_def whisper_language_def)
    qed
  qed
qed

lemma WhisperBackend_transcribe_language:
  assumes "WhisperBackend_transcribe w b audio sr = (Inr res, b1, w1)"
  shows "language res = whisper_language w (wh_use_faster b1) audio"
proof -
  obtain x b0 where load: "WhisperBackend_load_model w b = (x, b0)"
    by (cases "WhisperBackend_load_model w b")
  show ?thesis
  proof (cases x)
    case (Inl e)
    then show ?thesis using assms load by (simp add: WhisperBackend_transcribe_cases)
  next
    case (Inr u)
    then have b1: "b1 = b0"
      using assms load by (simp add: WhisperBackend_transcribe_cases)
    show ?thesis
    proof (cases "whisper_try w b0 audio")
      case (Inl e)
      then have "res = failed_result (py ''en'') (py ''whisper'')"
        using assms load \<open>x = Inr u\<close> by (simp add: WhisperBackend_transcribe_cases)
      then show ?thesis
        using whisper_try_failed_language [OF Inl] b1 by (simp add: failed_result_def)
    next
      case (Inr res0)
      then have "res = res0"
        using assms load \<open>x = Inr u\<close> by (simp add: WhisperBackend_transcribe_cases)
      then show ?thesis using whisper_try_language [OF Inr] b1 by simp
    qed
  qed
qed

lemma sample_world_ctc:
  "IndicConformerCTC_transcribe sample_world (IndicConformerCTC_init (py ''hi'')) audio sr
     = (Inr (py ''a''), loaded_ctc)"
  using decode_ctc_example
  by (simp add: IndicConformerCTC_transcribe_def load_models_def load_vocab_def
      IndicConformerCTC_init_def sample_world_def sample_logprobs_def loaded_ctc_def)

lemma str_strip_a: "str_strip (py ''a'') = py ''a''"
  by (simp add: str_strip_def py_def isspace_def)

lemma sample_world_ta:
  "fst (STTRouter_transcribe sample_world (STTRouter_init sample_world) audio (py ''ta'') sr)
     = Inr \<lparr>text' = py ''a'', confidence = 85 / 100, language = py ''hi'',
            backend = py ''indicconformer''\<rparr>"
proof -
  have b: "backends (STTRouter_init sample_world) (py ''indicconformer'')
       = Some (IndicConformer (IndicConformerBackend_init (py ''hi'')))"
    by (simp add: STTRouter_init_backends sample_world_available)
  have "get_backend_for_language (STTRouter_init sample_world) (py ''ta'')
      = Inr (Some (IndicConformer (IndicConformerBackend_init (py ''hi''))))"
    using registry_inv_init b ta_indic by (rule resolve_indic)
  then show ?thesis
    by (simp add: STTRouter_transcribe_def IndicConformerBackend_transcribe_cases
        IndicConformerBackend_init_def sample_world_ctc str_strip_a)
       (simp add: sample_world_def)
qed

text \<open>
  Claim C8, as stated, makes the language of the result equal to the language of the hint
  that routed the request. The router's IndicConformer backend is built for Hindi and is
  never told the hint: a request for \<open>'ta'\<close> is routed to it and comes back labelled \<open>'hi'\<close>.
\<close>

theorem result_language_counterexample:
  "fst (STTRouter_transcribe sample_world (STTRouter_init sample_world)
          (replicate 1600 0) (py ''ta'') 16000)
     = Inr \<lparr>text' = py ''a'', confidence = 85 / 100, language = py ''hi'',
            backend = py ''indicconformer''\<rparr>
   \<and> py ''hi'' \<noteq> py ''ta''"
  by (simp add: sample_world_ta)

text \<open>
  Claim C8, amended. Every result of the router carries the identifier of the backend
  that produced it and the language that backend works in, not the hint: a request
  resolved to the IndicConformer backend is labelled \<open>'hi'\<close> (its construction-time
  language) and \<open>'indicconformer'\<close>, whatever Indic language the hint names; a request
  resolved to the Whisper backend is labelled \<open>'whisper'\<close> and carries exactly the language
  the Whisper model's answer reports, and \<open>'en'\<close> when the answer reports none or the
  model call fails; only when no backend is found does the result carry the hint, with
  the backend \<open>'none'\<close>.
\<close>

theorem result_language_backend:
  assumes "reachable r" and "STTRouter_transcribe w r audio lang sr = (Inr res, r1, w1)"
  shows "(\<exists>found. get_backend_for_language r lang = Inr found
            \<and> (case found of
                  None \<Rightarrow> res = no_backend_result lang
                | Some (IndicConformer b) \<Rightarrow>
                    language res = py ''hi'' \<and> backend res = py ''indicconformer''
                | Some (Whisper b) \<Rightarrow>
                    backend res = py ''whisper''
                    \<and> (\<exists>b1. backends r1 (py ''whisper'') = Some (Whisper b1)
                           \<and> language res = whisper_language w (wh_use_faster b1) audio)))
       \<and> (lang \<in> set INDIC_LANGUAGES \<and> backends r (py ''indicconformer'') \<noteq> None \<longrightarrow>
            language res = py ''hi'' \<and> backend res = py ''indicconformer'')"
proof -
  have inv: "registry_inv r" using assms(1) by (rule reachable_inv)
  from resolve_returns [OF inv] obtain found where found: "get_backend_for_language r lang = Inr found"
    by blast
  have main: "case found of
                  None \<Rightarrow> res = no_backend_result lang
                | Some (IndicConformer b) \<Rightarrow>
                    language res = py ''hi'' \<and> backend res = py ''indicconformer''
                | Some (Whisper b) \<Rightarrow>
                    backend res = py ''whisper''
                    \<and> (\<exists>b1. backends r1 (py ''whisper'') = Some (Whisper b1)
                           \<and> language res = whisper_language w (wh_use_faster b1) audio)"
  proof (cases found)
    case None
    then show ?thesis
      using STTRouter_transcribe_not_found [of r lang w audio sr] found assms(2) by simp
  next
    case (Some b)
    with found have f: "get_backend_for_language r lang = Inr (Some b)" by simp
    from STTRouter_transcribe_found [OF f assms(2)] obtain b1
      where run: "STTBackend_transcribe w b audio sr = (Inr res, b1, w1)"
        and r1: "r1 = r\<lparr>backends := (backends r)(name b \<mapsto> b1)\<rparr>" by blast
    from resolve_found_registered [OF f] obtain k where k: "backends r k = Some b" by blast
    show ?thesis
    proof (cases b)
      case (IndicConformer x)
      obtain y x1 v where xr: "IndicConformerBackend_transcribe w x audio sr = (y, x1, v)"
        by (cases "IndicConformerBackend_transcribe w x audio sr")
      with run IndicConformer have xr': "IndicConformerBackend_transcribe w x audio sr = (Inr res, x1, v)"
        by simp
      have "k = py ''indicconformer''"
        using registry_inv_name [OF inv k] IndicConformer by simp
      then have "ic_language x = py ''hi''"
        using registry_inv_indic [OF inv] k IndicConformer by auto
      then show ?thesis
        using IndicConformerBackend_transcribe_result [OF xr'] Some IndicConformer by simp
    next
      case (Whisper x)
      obtain y x1 v where xr: "WhisperBackend_transcribe w x audio sr = (y, x1, v)"
        by (cases "WhisperBackend_transcribe w x audio sr")
      with run Whisper have xr': "WhisperBackend_transcribe w x audio sr = (Inr res, x1, v)"
        and b1: "b1 = Whisper x1"
        by simp_all
      have stored: "backends r1 (py ''whisper'') = Some (Whisper x1)"
        using r1 b1 Whisper by simp
      show ?thesis
        using WhisperBackend_transcribe_result [OF xr'] WhisperBackend_transcribe_language [OF xr']
          stored Some Whisper by simp
    qed
  qed
  have part: "lang \<in> set INDIC_LANGUAGES \<and> backends r (py ''indicconformer'') \<noteq> None \<longrightarrow>
            language res = py ''hi'' \<and> backend res = py ''indicconformer''"
  proof
    assume a: "lang \<in> set INDIC_LANGUAGES \<and> backends r (py ''indicconformer'') \<noteq> None"
    then obtain b where b: "backends r (py ''indicconformer'') = Some b" by auto
    from registry_inv_indic [OF inv b] obtain x where x: "b = IndicConformer x" by blast
    have "get_backend_for_language r lang = Inr (Some b)"
      using inv b a by (simp add: resolve_indic)
    with found have "found = Some (IndicConformer x)" using x by simp
    with main show "language res = py ''hi'' \<and> backend res = py ''indicconformer''" by simp
  qed
  from found main part show ?thesis by blast
qed

lemma hindi_whisper_world_available: "WhisperBackend_is_available hindi_whisper_world"
  by (simp add: WhisperBackend_is_available_def hindi_whisper_world_def sample_world_def)

lemma hindi_whisper_world_en:
  "get_backend_for_language (STTRouter_init hindi_whisper_world) (py ''en'')
     = Inr (Some (Whisper (WhisperBackend_init (py ''base''))))"
proof -
  have "backends (STTRouter_init hindi_whisper_world) (py ''whisper'')
      = Some (Whisper (WhisperBackend_init (py ''base'')))"
    by (simp add: STTRouter_init_backends hindi_whisper_world_available)
  with registry_inv_init show ?thesis by (rule resolve_en)
qed

lemma hindi_whisper_world_call:
  "STTRouter_transcribe hindi_whisper_world (STTRouter_init hindi_whisper_world) [0] (py ''en'') 16000
     = (Inr \<lparr>text' = py ''namaste'', confidence = 9 / 10, language = py ''hi'',
             backend = py ''whisper''\<rparr>,
        (STTRouter_init hindi_whisper_world)
          \<lparr>backends := (backends (STTRouter_init hindi_whisper_world))
                          (py ''whisper'' \<mapsto> Whisper (loaded_whisper True))\<rparr>,
        hindi_whisper_world\<lparr>inference_calls := 1\<rparr>)"
proof -
  have s: "str_strip (py ''namaste'') = py ''namaste''"
    by (simp add: str_strip_def py_def isspace_def)
  have load: "WhisperBackend_load_model hindi_whisper_world (WhisperBackend_init (py ''base''))
      = (Inr (), loaded_whisper True)"
    by (simp add: WhisperBackend_load_model_def WhisperBackend_init_def loaded_whisper_def
        hindi_whisper_world_def sample_world_def)
  have answer: "whisper_try hindi_whisper_world (loaded_whisper True) [0]
      = Inr \<lparr>text' = py ''namaste'', confidence = 9 / 10, language = py ''hi'',
              backend = py ''whisper''\<rparr>"
    by (simp add: whisper_try_def loaded_whisper_def hindi_whisper_world_def sample_world_def s)
  have "WhisperBackend_transcribe hindi_whisper_world (WhisperBackend_init (py ''base'')) [0] 16000
      = (Inr \<lparr>text' = py ''namaste'', confidence = 9 / 10, language = py ''hi'',
              backend = py ''whisper''\<rparr>,
         loaded_whisper True, hindi_whisper_world\<lparr>inference_calls := 1\<rparr>)"
    using answer load
    by (simp add: WhisperBackend_transcribe_cases)
       (simp add: hindi_whisper_world_def sample_world_def)
  then show ?thesis
    by (simp add: STTRouter_transcribe_def hindi_whisper_world_en)
qed

theorem result_language_backend_witness:
  "reachable (STTRouter_init sample_world)
   \<and> py ''ta'' \<in> set INDIC_LANGUAGES
   \<and> backends (STTRouter_init sample_world) (py ''indicconformer'') \<noteq> None
   \<and> (\<exists>res r1 w1.
        STTRouter_transcribe sample_world (STTRouter_init sample_world) [0] (py ''ta'') 16000
          = (Inr res, r1, w1)
        \<and> language res = py ''hi'' \<and> backend res = py ''indicconformer'')
   \<and> reachable (STTRouter_init hindi_whisper_world)
   \<and> (\<exists>res r1 w1 b1.
        STTRouter_transcribe hindi_whisper_world (STTRouter_init hindi_whisper_world) [0]
            (py ''en'') 16000
          = (Inr res, r1, w1)
        \<and> backend res = py ''whisper''
        \<and> backends r1 (py ''whisper'') = Some (Whisper b1)
        \<and> wh_use_faster b1 = Some True
        \<and> language res = whisper_language hindi_whisper_world (Some True) [0]
        \<and> language res = py ''hi'')"
proof -
  let ?r = "STTRouter_init sample_world"
  have re: "reachable ?r" by (rule reachable.built)
  have reg: "backends ?r (py ''indicconformer'') \<noteq> None"
    by (simp add: STTRouter_init_backends sample_world_available)
  obtain x r1 w1 where run: "STTRouter_transcribe sample_world ?r [0] (py ''ta'') 16000 = (x, r1, w1)"
    by (cases "STTRouter_transcribe sample_world ?r [0] (py ''ta'') 16000")
  with sample_world_ta [of "[0]" 16000] obtain res where
    run': "STTRouter_transcribe sample_world ?r [0] (py ''ta'') 16000 = (Inr res, r1, w1)"
    by simp
  from result_language_backend [OF re run'] ta_indic reg
  have "language res = py ''hi'' \<and> backend res = py ''indicconformer''" by blast
  with run' have first: "\<exists>res r1 w1.
        STTRouter_transcribe sample_world ?r [0] (py ''ta'') 16000 = (Inr res, r1, w1)
        \<and> language res = py ''hi'' \<and> backend res = py ''indicconformer''"
    by blast
  let ?h = "STTRouter_init hindi_whisper_world"
  let ?res = "\<lparr>text' = py ''namaste'', confidence = 9 / 10, language = py ''hi'',
             backend = py ''whisper''\<rparr>"
  let ?h1 = "?h\<lparr>backends := (backends ?h)(py ''whisper'' \<mapsto> Whisper (loaded_whisper True))\<rparr>"
  have reh: "reachable ?h" by (rule reachable.built)
  note call = hindi_whisper_world_call
  from result_language_backend [OF reh call] hindi_whisper_world_en
  have "backend ?res = py ''whisper''
      \<and> (\<exists>b1. backends ?h1 (py ''whisper'') = Some (Whisper b1)
             \<and> language ?res = whisper_language hindi_whisper_world (wh_use_faster b1) [0])"
    by simp
  then have "backend ?res = py ''whisper''
      \<and> backends ?h1 (py ''whisper'') = Some (Whisper (loaded_whisper True))
      \<and> wh_use_faster (loaded_whisper True) = Some True
      \<and> language ?res = whisper_language hindi_whisper_world (Some True) [0]
      \<and> language ?res = py ''hi''"
    by (auto simp: loaded_whisper_def)
  with call have second: "\<exists>res r1 w1 b1.
        STTRouter_transcribe hindi_whisper_world ?h [0] (py ''en'') 16000 = (Inr res, r1, w1)
        \<and> backend res = py ''whisper''
        \<and> backends r1 (py ''whisper'') = Some (Whisper b1)
        \<and> wh_use_faster b1 = Some True
        \<and> language res = whisper_language hindi_whisper_world (Some True) [0]
        \<and> language res = py ''hi''"
    by blast
  from re ta_indic reg first reh second show ?thesis by blast
qed

subsection \<open>The handler\<close>

lemma handle_transcribe_empty:
  "content_length req = Inr 0 \<Longrightarrow>
   handle_transcribe f32 w s req
     = (\<lparr>status = 400, body = [(py ''error'', JStr (py ''No audio data''))]\<rparr>, s, w)"
  by (simp add: handle_transcribe_def)

lemma handle_transcribe_short:
  "content_length req = Inr n \<Longrightarrow> n \<noteq> 0 \<Longrightarrow> read_audio f32 req n = Inr a \<Longrightarrow> length a < 1600 \<Longrightarrow>
   handle_transcribe f32 w s req
     = (too_short_response (str_lower (case x_language req of None \<Rightarrow> py ''auto'' | Some l \<Rightarrow> l)),
        s, w)"
  by (simp add: handle_transcribe_def Let_def)

lemma handle_transcribe_long:
  assumes "content_length req = Inr n" "n \<noteq> 0" "read_audio f32 req n = Inr a" "\<not> length a < 1600"
    and "get_router w s = (r, s1)"
    and "STTRouter_transcribe w r a
           (str_lower (case x_language req of None \<Rightarrow> py ''auto'' | Some l \<Rightarrow> l)) 16000
         = (Inr res, r1, w1)"
  shows "handle_transcribe f32 w s req = (result_response res, s1\<lparr>router_global := Some r1\<rparr>, w1)"
  using assms by (simp add: handle_transcribe_def Let_def)

lemma not_float32_pcm: "\<not> sublist (py ''float32'') (py ''audio/pcm'')"
  by (simp add: py_def sublist_Cons_right prefix_Cons)

lemma pcm_request_audio:
  "\<exists>a. read_audio f32 (pcm_request k lang) n = Inr a \<and> length a = k"
  by (simp add: read_audio_def pcm_request_def not_float32_pcm pcm16_to_float32_def
      frombuffer_int16_def length_int16_samples)

lemma str_lower_fr: "str_lower (py ''fr'') = py ''fr''"
  by (simp add: str_lower_def lower_char_def py_def)

lemma str_lower_auto: "str_lower (py ''auto'') = py ''auto''"
  by (simp add: str_lower_def lower_char_def py_def)

subsection \<open>No backend for a language\<close>

lemma STTRouter_init_bare: "STTRouter_init bare_world = \<lparr>backends = Map.empty, default_backend = None\<rparr>"
proof -
  have "backends (STTRouter_init bare_world) = Map.empty"
    by (simp add: STTRouter_init_backends bare_world_available)
  moreover have "default_backend (STTRouter_init bare_world) = None"
    by (simp add: STTRouter_init_default bare_world_available)
  ultimately show ?thesis by (cases "STTRouter_init bare_world") simp
qed

lemma bare_world_fr:
  "get_backend_for_language (STTRouter_init bare_world) (py ''fr'') = Inr None"
  by (simp add: STTRouter_init_bare get_backend_for_language_def)

text \<open>
  Claim C3 says that a language no backend can serve ends in an error. With no backend
  registered, the router returns normally the empty transcript for \<open>'fr'\<close>, and the
  handler answers a request of 1600 samples with status 200 and that empty transcript,
  without an error member.
\<close>

theorem no_backend_counterexample:
  "get_backend_for_language (STTRouter_init bare_world) (py ''fr'') = Inr None
   \<and> STTRouter_transcribe bare_world (STTRouter_init bare_world) (replicate 1600 0) (py ''fr'') 16000
       = (Inr \<lparr>text' = [], confidence = 0, language = py ''fr'', backend = py ''none''\<rparr>,
          STTRouter_init bare_world, bare_world)
   \<and> fst (handle_transcribe (\<lambda>four. 0) bare_world \<lparr>router_global = None\<rparr>
            (pcm_request 1600 (Some (py ''fr''))))
       = \<lparr>status = 200,
          body = [(py ''text'', JStr []), (py ''confidence'', JNum 0),
                  (py ''language'', JStr (py ''fr'')), (py ''backend'', JStr (py ''none''))]\<rparr>"
proof -
  have run: "\<And>a. STTRouter_transcribe bare_world (STTRouter_init bare_world) a (py ''fr'') 16000
       = (Inr \<lparr>text' = [], confidence = 0, language = py ''fr'', backend = py ''none''\<rparr>,
          STTRouter_init bare_world, bare_world)"
    using STTRouter_transcribe_not_found [OF bare_world_fr] by (simp add: no_backend_result_def)
  obtain a where a: "read_audio (\<lambda>four. 0) (pcm_request 1600 (Some (py ''fr''))) (int (2 * 1600)) = Inr a"
      and la: "length a = 1600"
    using pcm_request_audio [of "\<lambda>four. 0" 1600 "Some (py ''fr'')" "int (2 * 1600)"] by blast
  have c1: "content_length (pcm_request 1600 (Some (py ''fr''))) = Inr (int (2 * 1600))"
    by (simp add: pcm_request_def)
  have c2: "int (2 * 1600) \<noteq> 0" by simp
  have c4: "\<not> length a < 1600" using la by simp
  have c5: "get_router bare_world \<lparr>router_global = None\<rparr>
      = (STTRouter_init bare_world, \<lparr>router_global = Some (STTRouter_init bare_world)\<rparr>)"
    by (simp add: get_router_def Let_def)
  have c6: "STTRouter_transcribe bare_world (STTRouter_init bare_world) a
      (str_lower (case x_language (pcm_request 1600 (Some (py ''fr''))) of
                    None \<Rightarrow> py ''auto'' | Some l \<Rightarrow> l)) 16000
      = (Inr \<lparr>text' = [], confidence = 0, language = py ''fr'', backend = py ''none''\<rparr>,
         STTRouter_init bare_world, bare_world)"
    using run [of a] by (simp add: pcm_request_def str_lower_fr)
  have "fst (handle_transcribe (\<lambda>four. 0) bare_world \<lparr>router_global = None\<rparr>
            (pcm_request 1600 (Some (py ''fr''))))
      = result_response \<lparr>text' = [], confidence = 0, language = py ''fr'', backend = py ''none''\<rparr>"
    using handle_transcribe_long [OF c1 c2 a c4 c5 c6] by simp
  then show ?thesis
    using bare_world_fr run [of "replicate 1600 0"] by (simp add: result_response_def)
qed

text \<open>
  Claim C3, amended. On every router that can exist, a language finds no backend exactly
  when no backend is registered at all (with any backend registered, every language
  resolves to one, at the latest the default). In that case \<open>transcribe\<close> returns
  normally the empty text with confidence zero, the requested language and the backend
  \<open>'none'\<close>, and changes nothing; the handler passes this result on with status 200, as
  it does a transcript. No exception is raised and no error member is sent.
\<close>

theorem no_backend_empty_result:
  assumes "reachable r"
  shows "(get_backend_for_language r lang = Inr None \<longleftrightarrow> backends r = Map.empty)
       \<and> (backends r = Map.empty \<longrightarrow>
            STTRouter_transcribe w r audio lang sr = (Inr (no_backend_result lang), r, w))
       \<and> (backends r \<noteq> Map.empty \<longrightarrow> (\<exists>b. get_backend_for_language r lang = Inr (Some b)))
       \<and> (\<forall>f32 s req n a.
             router_global s = Some r \<and> backends r = Map.empty \<and> content_length req = Inr n
             \<and> n \<noteq> 0 \<and> read_audio f32 req n = Inr a \<and> \<not> length a < 1600 \<longrightarrow>
             handle_transcribe f32 w s req
               = (result_response
                    (no_backend_result
                       (str_lower (case x_language req of None \<Rightarrow> py ''auto'' | Some l \<Rightarrow> l))),
                  s, w))"
proof -
  have inv: "registry_inv r" using assms by (rule reachable_inv)
  have empty_iff: "backends r = Map.empty \<longleftrightarrow> default_backend r = None"
  proof
    assume e: "backends r = Map.empty"
    show "default_backend r = None"
    proof (cases "default_backend r")
      case (Some d)
      from registry_inv_default_Some [OF inv Some] e show ?thesis by simp
    qed simp
  next
    assume "default_backend r = None"
    then show "backends r = Map.empty"
      using registry_inv_default_None [OF inv] by (intro ext) simp
  qed
  have none: "default_backend r = None \<Longrightarrow> get_backend_for_language r l = Inr None" for l
    using inv by (rule resolve_empty)
  have some: "default_backend r \<noteq> None \<Longrightarrow> \<exists>b. get_backend_for_language r l = Inr (Some b)" for l
    using resolve_nonempty [OF inv] by (cases "default_backend r") auto
  have p1: "get_backend_for_language r lang = Inr None \<longleftrightarrow> backends r = Map.empty"
    using none [of lang] some [of lang] empty_iff by (cases "default_backend r") auto
  have p2: "backends r = Map.empty \<longrightarrow>
            STTRouter_transcribe w r audio lang sr = (Inr (no_backend_result lang), r, w)"
    using p1 STTRouter_transcribe_not_found [of r lang w audio sr] by simp
  have p3: "backends r \<noteq> Map.empty \<longrightarrow> (\<exists>b. get_backend_for_language r lang = Inr (Some b))"
    using some [of lang] empty_iff by simp
  have p4: "\<forall>f32 s req n a.
             router_global s = Some r \<and> backends r = Map.empty \<and> content_length req = Inr n
             \<and> n \<noteq> 0 \<and> read_audio f32 req n = Inr a \<and> \<not> length a < 1600 \<longrightarrow>
             handle_transcribe f32 w s req
               = (result_response
                    (no_backend_result
                       (str_lower (case x_language req of None \<Rightarrow> py ''auto'' | Some l \<Rightarrow> l))),
                  s, w)"
  proof (intro allI impI)
    fix f32 :: "8 word list \<Rightarrow> real" and s :: server and req :: request and n a
    assume h: "router_global s = Some r \<and> backends r = Map.empty \<and> content_length req = Inr n
             \<and> n \<noteq> 0 \<and> read_audio f32 req n = Inr a \<and> \<not> length a < 1600"
    let ?l = "str_lower (case x_language req of None \<Rightarrow> py ''auto'' | Some l \<Rightarrow> l)"
    have g: "get_router w s = (r, s)" using h by (simp add: get_router_def)
    have "get_backend_for_language r ?l = Inr None"
      using h none [of ?l] empty_iff by simp
    then have t: "STTRouter_transcribe w r a ?l 16000 = (Inr (no_backend_result ?l), r, w)"
      by (rule STTRouter_transcribe_not_found)
    have "handle_transcribe f32 w s req
        = (result_response (no_backend_result ?l), s\<lparr>router_global := Some r\<rparr>, w)"
    proof -
      from h have h1: "content_length req = Inr n" and h2: "n \<noteq> 0"
        and h3: "read_audio f32 req n = Inr a" and h4: "\<not> length a < 1600"
        by blast+
      show ?thesis by (rule handle_transcribe_long [OF h1 h2 h3 h4 g t])
    qed
    moreover have "s\<lparr>router_global := Some r\<rparr> = s" using h by simp
    ultimately show "handle_transcribe f32 w s req = (result_response (no_backend_result ?l), s, w)"
      by simp
  qed
  from p1 p2 p3 p4 show ?thesis by blast
qed

theorem no_backend_empty_result_witness:
  "reachable (STTRouter_init bare_world)
   \<and> backends (STTRouter_init bare_world) = Map.empty
   \<and> get_backend_for_language (STTRouter_init bare_world) (py ''fr'') = Inr None
   \<and> STTRouter_transcribe bare_world (STTRouter_init bare_world) [0] (py ''fr'') 16000
       = (Inr (no_backend_result (py ''fr'')), STTRouter_init bare_world, bare_world)
   \<and> reachable (STTRouter_init sample_world)
   \<and> backends (STTRouter_init sample_world) \<noteq> Map.empty
   \<and> (\<exists>b. get_backend_for_language (STTRouter_init sample_world) (py ''fr'') = Inr (Some b))"
proof -
  have r1: "reachable (STTRouter_init bare_world)" by (rule reachable.built)
  have r2: "reachable (STTRouter_init sample_world)" by (rule reachable.built)
  have e1: "backends (STTRouter_init bare_world) = Map.empty"
    by (simp add: STTRouter_init_bare)
  have "backends (STTRouter_init sample_world) (py ''whisper'') \<noteq> None"
    by (simp add: STTRouter_init_backends sample_world_available)
  then have e2: "backends (STTRouter_init sample_world) \<noteq> Map.empty" by auto
  note a = no_backend_empty_result [OF r1, of "py ''fr''" bare_world "[0]" 16000]
  note b = no_backend_empty_result [OF r2, of "py ''fr''" sample_world "[0]" 16000]
  from a b r1 r2 e1 e2 show ?thesis by blast
qed

subsection \<open>Failures inside a backend\<close>

lemma load_models_unloadable:
  assumes "\<not> ctc_encoder m" "\<not> assets_loadable w (ctc_language m)"
  shows "\<exists>e m1. load_models w m = (Inl e, m1)"
proof (cases "encoder_onnx w")
  case (Content u)
  note enc = Content
  show ?thesis
  proof (cases "ctc_decoder_onnx w")
    case (Content u')
    note dec = Content
    have "\<exists>e m1. load_vocab w (m\<lparr>ctc_encoder := True, ctc_decoder := True\<rparr>) = (Inl e, m1)"
      using assms(2) enc dec
      by (cases "vocab_json w"; cases "language_masks_json w")
         (auto simp: load_vocab_def assets_loadable_def Let_def split: option.splits)
    then show ?thesis
      using assms(1) enc dec by (auto simp: load_models_def Let_def)
  qed (use assms(1) enc in \<open>simp_all add: load_models_def Let_def\<close>)
qed (use assms(1) in \<open>simp_all add: load_models_def\<close>)

lemma CTC_transcribe_unloadable:
  assumes "\<not> ctc_encoder m" "\<not> assets_loadable w (ctc_language m)"
  shows "\<exists>e m1. IndicConformerCTC_transcribe w m audio sr = (Inl e, m1)"
  using load_models_unloadable [OF assms] by (auto simp: IndicConformerCTC_transcribe_def)

lemma CTC_transcribe_inference_fails:
  assumes "ctc_inference w audio sr = Inl e"
  shows "\<exists>e' m1. IndicConformerCTC_transcribe w m audio sr = (Inl e', m1)"
proof -
  obtain x m0 where load: "load_models w m = (x, m0)" by (cases "load_models w m")
  show ?thesis
    using load assms by (cases x) (auto simp: IndicConformerCTC_transcribe_def)
qed

lemma IndicConformerBackend_transcribe_failed:
  assumes "ic_model b \<noteq> None \<or> indicconformer_module w"
    and "IndicConformerCTC_transcribe w
           (case ic_model b of None \<Rightarrow> IndicConformerCTC_init (ic_language b) | Some m \<Rightarrow> m)
           audio sr = (Inl e, m1)"
  shows "IndicConformerBackend_transcribe w b audio sr
           = (Inr (failed_result (ic_language b) (py ''indicconformer'')),
              b\<lparr>ic_model := Some m1\<rparr>, w\<lparr>inference_calls := inference_calls w + 1\<rparr>)"
  using assms by (auto simp: IndicConformerBackend_transcribe_cases)

text \<open>
  Claim C4 says that transcribe fails when the assets are missing or the computation
  fails. In a world without the model files, and in a world whose inference raises, the
  IndicConformer backend returns normally: the empty text with confidence zero.
\<close>

theorem backend_failure_counterexample:
  "encoder_onnx whisper_only_world = Missing
   \<and> vocab_json whisper_only_world = Missing
   \<and> fst (IndicConformerBackend_transcribe whisper_only_world
            (IndicConformerBackend_init (py ''hi'')) (replicate 1600 0) 16000)
       = Inr \<lparr>text' = [], confidence = 0, language = py ''hi'', backend = py ''indicconformer''\<rparr>
   \<and> ctc_inference failing_inference_world (replicate 1600 0) 16000 = Inl OtherError
   \<and> fst (IndicConformerBackend_transcribe failing_inference_world
            (IndicConformerBackend_init (py ''hi'')) (replicate 1600 0) 16000)
       = Inr \<lparr>text' = [], confidence = 0, language = py ''hi'', backend = py ''indicconformer''\<rparr>"
proof -
  have a: "fst (IndicConformerBackend_transcribe whisper_only_world
            (IndicConformerBackend_init (py ''hi'')) (replicate 1600 0) 16000)
       = Inr \<lparr>text' = [], confidence = 0, language = py ''hi'', backend = py ''indicconformer''\<rparr>"
    by (simp add: IndicConformerBackend_transcribe_cases IndicConformerBackend_init_def
        IndicConformerCTC_transcribe_def load_models_def IndicConformerCTC_init_def
        whisper_only_world_def sample_world_def failed_result_def)
  have b: "fst (IndicConformerBackend_transcribe failing_inference_world
            (IndicConformerBackend_init (py ''hi'')) (replicate 1600 0) 16000)
       = Inr \<lparr>text' = [], confidence = 0, language = py ''hi'', backend = py ''indicconformer''\<rparr>"
    by (simp add: IndicConformerBackend_transcribe_cases IndicConformerBackend_init_def
        IndicConformerCTC_transcribe_def load_models_def load_vocab_def IndicConformerCTC_init_def
        failing_inference_world_def sample_world_def failed_result_def)
  show ?thesis
    using a b by (simp add: whisper_only_world_def failing_inference_world_def sample_world_def)
qed

lemma CTC_transcribe_half_loaded:
  assumes "ctc_encoder m" "\<not> ctc_mel_transform m"
  shows "IndicConformerCTC_transcribe w m audio sr = (Inl TypeError, m)"
  using assms by (simp add: IndicConformerCTC_transcribe_def load_models_def)

lemma CTC_transcribe_loaded:
  assumes "ctc_encoder m" "ctc_decoder m" "ctc_mel_transform m"
    and "ctc_language_mask m = Some msk" "ctc_vocab m = Some v"
    and "ctc_inference w audio sr = Inr lp"
  shows "IndicConformerCTC_transcribe w m audio sr = (decode_ctc (torch_log_softmax w) msk v lp, m)"
  using assms by (simp add: IndicConformerCTC_transcribe_def load_models_def)

text \<open>
  Claim C4, amended. A backend's transcribe does not fail when the model's assets are
  missing or its computation fails; it completes with the empty result (empty text,
  confidence zero, the backend's language and name).
  For the IndicConformer backend, when the model object exists or its module can be
  imported: the empty result is returned when the model object has not yet loaded its
  encoder and the assets cannot be loaded for its language; when an earlier load stopped
  part-way (the encoder is set, the mel transform is not); and when the inference raises.
  When no model object exists and the module cannot be imported, transcribe raises that
  \<open>ImportError\<close>. A fully loaded model does not read the asset files again: it returns
  its transcript with confidence \<open>0.85\<close> whatever has become of the files.
  For the Whisper backend: once the model is loaded, an exception of its inference gives
  the empty result labelled \<open>'en'\<close>. An exception while the Whisper model is being loaded
  is not caught: it leaves transcribe as it is.
\<close>

theorem backend_failure_empty_result:
  "((ic_model b \<noteq> None \<or> indicconformer_module w) \<and> \<not> ctc_encoder (model_object b)
      \<and> \<not> assets_loadable w (ctc_language (model_object b)) \<longrightarrow>
      fst (IndicConformerBackend_transcribe w b audio sr)
        = Inr (failed_result (ic_language b) (py ''indicconformer'')))
   \<and> (\<forall>m. ic_model b = Some m \<and> ctc_encoder m \<and> \<not> ctc_mel_transform m \<longrightarrow>
      fst (IndicConformerBackend_transcribe w b audio sr)
        = Inr (failed_result (ic_language b) (py ''indicconformer'')))
   \<and> ((ic_model b \<noteq> None \<or> indicconformer_module w) \<and> ctc_inference w audio sr = Inl e \<longrightarrow>
      fst (IndicConformerBackend_transcribe w b audio sr)
        = Inr (failed_result (ic_language b) (py ''indicconformer'')))
   \<and> (ic_model b = None \<and> \<not> indicconformer_module w \<longrightarrow>
      fst (IndicConformerBackend_transcribe w b audio sr) = Inl ImportError)
   \<and> (\<forall>m msk v lp txt.
        ic_model b = Some m \<and> ctc_encoder m \<and> ctc_decoder m \<and> ctc_mel_transform m
        \<and> ctc_language_mask m = Some msk \<and> ctc_vocab m = Some v
        \<and> ctc_inference w audio sr = Inr lp
        \<and> decode_ctc (torch_log_softmax w) msk v lp = Inr txt \<longrightarrow>
      fst (IndicConformerBackend_transcribe w b audio sr)
        = Inr \<lparr>text' = str_strip txt, confidence = 85 / 100, language = ic_language b,
               backend = py ''indicconformer''\<rparr>)
   \<and> (\<forall>u wb1 e1. WhisperBackend_load_model w wb = (Inr u, wb1) \<and> whisper_try w wb1 audio = Inl e1 \<longrightarrow>
      fst (WhisperBackend_transcribe w wb audio sr) = Inr (failed_result (py ''en'') (py ''whisper'')))
   \<and> (wh_model wb \<and> wh_use_faster wb = Some True \<and> faster_whisper_transcribe w audio = Inl e \<longrightarrow>
      fst (WhisperBackend_transcribe w wb audio sr) = Inr (failed_result (py ''en'') (py ''whisper'')))
   \<and> (wh_model wb \<and> wh_use_faster wb = Some False \<and> whisper_transcribe w audio = Inl e \<longrightarrow>
      fst (WhisperBackend_transcribe w wb audio sr) = Inr (failed_result (py ''en'') (py ''whisper'')))
   \<and> (\<forall>e1 wb1. WhisperBackend_load_model w wb = (Inl e1, wb1) \<longrightarrow>
      fst (WhisperBackend_transcribe w wb audio sr) = Inl e1)"
proof -
  have p1: "(ic_model b \<noteq> None \<or> indicconformer_module w) \<and> \<not> ctc_encoder (model_object b)
      \<and> \<not> assets_loadable w (ctc_language (model_object b)) \<longrightarrow>
      fst (IndicConformerBackend_transcribe w b audio sr)
        = Inr (failed_result (ic_language b) (py ''indicconformer''))"
  proof
    assume h: "(ic_model b \<noteq> None \<or> indicconformer_module w) \<and> \<not> ctc_encoder (model_object b)
      \<and> \<not> assets_loadable w (ctc_language (model_object b))"
    then have l: "ic_model b \<noteq> None \<or> indicconformer_module w"
      and n: "\<not> ctc_encoder (model_object b)"
      and a: "\<not> assets_loadable w (ctc_language (model_object b))"
      by blast+
    from CTC_transcribe_unloadable [OF n a] obtain e' m1 where
      "IndicConformerCTC_transcribe w (model_object b) audio sr = (Inl e', m1)"
      by blast
    then have "IndicConformerCTC_transcribe w
         (case ic_model b of None \<Rightarrow> IndicConformerCTC_init (ic_language b) | Some m \<Rightarrow> m)
         audio sr = (Inl e', m1)"
      by (simp add: model_object_def)
    from IndicConformerBackend_transcribe_failed [OF l this]
    show "fst (IndicConformerBackend_transcribe w b audio sr)
        = Inr (failed_result (ic_language b) (py ''indicconformer''))"
      by simp
  qed
  have p1b: "\<forall>m. ic_model b = Some m \<and> ctc_encoder m \<and> \<not> ctc_mel_transform m \<longrightarrow>
      fst (IndicConformerBackend_transcribe w b audio sr)
        = Inr (failed_result (ic_language b) (py ''indicconformer''))"
  proof (intro allI impI)
    fix m
    assume h: "ic_model b = Some m \<and> ctc_encoder m \<and> \<not> ctc_mel_transform m"
    then have s: "ic_model b = Some m" and c: "ctc_encoder m" and t: "\<not> ctc_mel_transform m"
      by blast+
    have l: "ic_model b \<noteq> None \<or> indicconformer_module w" using s by simp
    have "IndicConformerCTC_transcribe w
         (case ic_model b of None \<Rightarrow> IndicConformerCTC_init (ic_language b) | Some m \<Rightarrow> m)
         audio sr = (Inl TypeError, m)"
      using CTC_transcribe_half_loaded [OF c t] s by simp
    from IndicConformerBackend_transcribe_failed [OF l this]
    show "fst (IndicConformerBackend_transcribe w b audio sr)
        = Inr (failed_result (ic_language b) (py ''indicconformer''))"
      by simp
  qed
  have p2: "(ic_model b \<noteq> None \<or> indicconformer_module w) \<and> ctc_inference w audio sr = Inl e \<longrightarrow>
      fst (IndicConformerBackend_transcribe w b audio sr)
        = Inr (failed_result (ic_language b) (py ''indicconformer''))"
  proof
    assume h: "(ic_model b \<noteq> None \<or> indicconformer_module w) \<and> ctc_inference w audio sr = Inl e"
    then have c: "ctc_inference w audio sr = Inl e" and l: "ic_model b \<noteq> None \<or> indicconformer_module w"
      by blast+
    from CTC_transcribe_inference_fails [OF c] obtain e' m1 where
      "IndicConformerCTC_transcribe w
         (case ic_model b of None \<Rightarrow> IndicConformerCTC_init (ic_language b) | Some m \<Rightarrow> m)
         audio sr = (Inl e', m1)"
      by blast
    from IndicConformerBackend_transcribe_failed [OF l this]
    show "fst (IndicConformerBackend_transcribe w b audio sr)
        = Inr (failed_result (ic_language b) (py ''indicconformer''))"
      by simp
  qed
  have pI: "ic_model b = None \<and> \<not> indicconformer_module w \<longrightarrow>
      fst (IndicConformerBackend_transcribe w b audio sr) = Inl ImportError"
    by (simp add: IndicConformerBackend_transcribe_cases)
  have pL: "\<forall>m msk v lp txt.
        ic_model b = Some m \<and> ctc_encoder m \<and> ctc_decoder m \<and> ctc_mel_transform m
        \<and> ctc_language_mask m = Some msk \<and> ctc_vocab m = Some v
        \<and> ctc_inference w audio sr = Inr lp
        \<and> decode_ctc (torch_log_softmax w) msk v lp = Inr txt \<longrightarrow>
      fst (IndicConformerBackend_transcribe w b audio sr)
        = Inr \<lparr>text' = str_strip txt, confidence = 85 / 100, language = ic_language b,
               backend = py ''indicconformer''\<rparr>"
  proof (intro allI impI)
    fix m msk v lp t
    assume h: "ic_model b = Some m \<and> ctc_encoder m \<and> ctc_decoder m \<and> ctc_mel_transform m
        \<and> ctc_language_mask m = Some msk \<and> ctc_vocab m = Some v
        \<and> ctc_inference w audio sr = Inr lp
        \<and> decode_ctc (torch_log_softmax w) msk v lp = Inr t"
    then have s: "ic_model b = Some m" and d: "decode_ctc (torch_log_softmax w) msk v lp = Inr t"
      and h1: "ctc_encoder m" and h2: "ctc_decoder m" and h3: "ctc_mel_transform m"
      and h4: "ctc_language_mask m = Some msk" and h5: "ctc_vocab m = Some v"
      and h6: "ctc_inference w audio sr = Inr lp"
      by blast+
    have "IndicConformerCTC_transcribe w m audio sr = (Inr t, m)"
      using CTC_transcribe_loaded [OF h1 h2 h3 h4 h5 h6] d by simp
    then show "fst (IndicConformerBackend_transcribe w b audio sr)
        = Inr \<lparr>text' = str_strip t, confidence = 85 / 100, language = ic_language b,
               backend = py ''indicconformer''\<rparr>"
      using s by (simp add: IndicConformerBackend_transcribe_cases)
  qed
  have p3: "\<forall>u wb1 e1. WhisperBackend_load_model w wb = (Inr u, wb1) \<and> whisper_try w wb1 audio = Inl e1 \<longrightarrow>
      fst (WhisperBackend_transcribe w wb audio sr) = Inr (failed_result (py ''en'') (py ''whisper''))"
    by (simp add: WhisperBackend_transcribe_cases)
  have loaded: "wh_model wb \<Longrightarrow> WhisperBackend_load_model w wb = (Inr (), wb)"
    by (simp add: WhisperBackend_load_model_def)
  have p4: "wh_model wb \<and> wh_use_faster wb = Some True \<and> faster_whisper_transcribe w audio = Inl e \<longrightarrow>
      fst (WhisperBackend_transcribe w wb audio sr) = Inr (failed_result (py ''en'') (py ''whisper''))"
    using loaded by (auto simp: WhisperBackend_transcribe_cases whisper_try_def)
  have p5: "wh_model wb \<and> wh_use_faster wb = Some False \<and> whisper_transcribe w audio = Inl e \<longrightarrow>
      fst (WhisperBackend_transcribe w wb audio sr) = Inr (failed_result (py ''en'') (py ''whisper''))"
    using loaded by (auto simp: WhisperBackend_transcribe_cases whisper_try_def)
  have p6: "\<forall>e1 wb1. WhisperBackend_load_model w wb = (Inl e1, wb1) \<longrightarrow>
      fst (WhisperBackend_transcribe w wb audio sr) = Inl e1"
    by (simp add: WhisperBackend_transcribe_cases)
  from p1 p1b p2 pI pL p3 p4 p5 p6 show ?thesis by blast
qed

theorem backend_failure_empty_result_witness:
  "\<not> assets_loadable whisper_only_world (py ''hi'')
   \<and> fst (IndicConformerBackend_transcribe whisper_only_world
            (IndicConformerBackend_init (py ''hi'')) [0] 16000)
       = Inr (failed_result (py ''hi'') (py ''indicconformer''))
   \<and> fst (IndicConformerBackend_transcribe sample_world
            \<lparr>ic_model = Some half_loaded_ctc, ic_language = py ''hi''\<rparr> [0] 16000)
       = Inr (failed_result (py ''hi'') (py ''indicconformer''))
   \<and> ctc_inference failing_inference_world [0] 16000 = Inl OtherError
   \<and> fst (IndicConformerBackend_transcribe failing_inference_world
            (IndicConformerBackend_init (py ''hi'')) [0] 16000)
       = Inr (failed_result (py ''hi'') (py ''indicconformer''))
   \<and> \<not> indicconformer_module no_module_world
   \<and> fst (IndicConformerBackend_transcribe no_module_world
            (IndicConformerBackend_init (py ''hi'')) [0] 16000)
       = Inl ImportError
   \<and> fst (IndicConformerBackend_transcribe whisper_only_world
            \<lparr>ic_model = Some loaded_ctc, ic_language = py ''hi''\<rparr> [0] 16000)
       = Inr \<lparr>text' = py ''a'', confidence = 85 / 100, language = py ''hi'',
              backend = py ''indicconformer''\<rparr>
   \<and> WhisperBackend_load_model failing_whisper_world (WhisperBackend_init (py ''base''))
       = (Inr (), loaded_whisper True)
   \<and> whisper_try failing_whisper_world (loaded_whisper True) [0] = Inl OtherError
   \<and> fst (WhisperBackend_transcribe failing_whisper_world (WhisperBackend_init (py ''base'')) [0] 16000)
       = Inr (failed_result (py ''en'') (py ''whisper''))
   \<and> fst (WhisperBackend_transcribe failing_whisper_world (loaded_whisper True) [0] 16000)
       = Inr (failed_result (py ''en'') (py ''whisper''))
   \<and> fst (WhisperBackend_transcribe sample_world (loaded_whisper False) [0] 16000)
       = Inr (failed_result (py ''en'') (py ''whisper''))
   \<and> WhisperBackend_load_model bare_world (WhisperBackend_init (py ''base''))
       = (Inl ImportError, WhisperBackend_init (py ''base''))
   \<and> fst (WhisperBackend_transcribe bare_world (WhisperBackend_init (py ''base'')) [0] 16000)
       = Inl ImportError"
proof -
  let ?fresh = "IndicConformerBackend_init (py ''hi'')"
  let ?half = "\<lparr>ic_model = Some half_loaded_ctc, ic_language = py ''hi''\<rparr>"
  let ?full = "\<lparr>ic_model = Some loaded_ctc, ic_language = py ''hi''\<rparr>"
  have a: "\<not> assets_loadable whisper_only_world (py ''hi'')"
    by (simp add: whisper_only_world_def sample_world_def assets_loadable_def)
  have h1: "(ic_model ?fresh \<noteq> None \<or> indicconformer_module whisper_only_world)
            \<and> \<not> ctc_encoder (model_object ?fresh)
            \<and> \<not> assets_loadable whisper_only_world (ctc_language (model_object ?fresh))"
    using a
    by (simp add: model_object_def IndicConformerBackend_init_def IndicConformerCTC_init_def
        whisper_only_world_def sample_world_def)
  have h1b: "ic_model ?half = Some half_loaded_ctc \<and> ctc_encoder half_loaded_ctc
            \<and> \<not> ctc_mel_transform half_loaded_ctc"
    by (simp add: half_loaded_ctc_def IndicConformerCTC_init_def)
  have h2: "(ic_model ?fresh \<noteq> None \<or> indicconformer_module failing_inference_world)
            \<and> ctc_inference failing_inference_world [0] 16000 = Inl OtherError"
    by (simp add: failing_inference_world_def sample_world_def)
  have hI: "ic_model ?fresh = None \<and> \<not> indicconformer_module no_module_world"
    by (simp add: IndicConformerBackend_init_def no_module_world_def sample_world_def)
  have d: "decode_ctc (torch_log_softmax whisper_only_world) [True, False, True]
             [py ''<unk>'', py ''a''] sample_logprobs = Inr (py ''a'')"
    using decode_ctc_example by (simp add: sample_logprobs_def whisper_only_world_def sample_world_def)
  have hL: "ic_model ?full = Some loaded_ctc \<and> ctc_encoder loaded_ctc \<and> ctc_decoder loaded_ctc
            \<and> ctc_mel_transform loaded_ctc
            \<and> ctc_language_mask loaded_ctc = Some [True, False, True]
            \<and> ctc_vocab loaded_ctc = Some [py ''<unk>'', py ''a'']
            \<and> ctc_inference whisper_only_world [0] 16000 = Inr sample_logprobs
            \<and> decode_ctc (torch_log_softmax whisper_only_world) [True, False, True]
                  [py ''<unk>'', py ''a''] sample_logprobs = Inr (py ''a'')"
    using d by (simp add: loaded_ctc_def whisper_only_world_def sample_world_def)
  have h3: "WhisperBackend_load_model failing_whisper_world (WhisperBackend_init (py ''base''))
       = (Inr (), loaded_whisper True)"
    by (simp add: WhisperBackend_load_model_def WhisperBackend_init_def failing_whisper_world_def
        sample_world_def loaded_whisper_def)
  have h3': "whisper_try failing_whisper_world (loaded_whisper True) [0] = Inl OtherError"
    by (simp add: whisper_try_def failing_whisper_world_def sample_world_def loaded_whisper_def)
  have h4: "wh_model (loaded_whisper True) \<and> wh_use_faster (loaded_whisper True) = Some True
            \<and> faster_whisper_transcribe failing_whisper_world [0] = Inl OtherError"
    by (simp add: failing_whisper_world_def sample_world_def loaded_whisper_def)
  have h5: "wh_model (loaded_whisper False) \<and> wh_use_faster (loaded_whisper False) = Some False
            \<and> whisper_transcribe sample_world [0] = Inl OtherError"
    by (simp add: sample_world_def loaded_whisper_def)
  have h6: "WhisperBackend_load_model bare_world (WhisperBackend_init (py ''base''))
       = (Inl ImportError, WhisperBackend_init (py ''base''))"
    by (simp add: WhisperBackend_load_model_def WhisperBackend_init_def bare_world_def
        whisper_only_world_def sample_world_def)
  note t1 = backend_failure_empty_result
    [of ?fresh whisper_only_world "[0]" 16000 OtherError "WhisperBackend_init (py ''base'')"]
  note t1b = backend_failure_empty_result
    [of ?half sample_world "[0]" 16000 OtherError "WhisperBackend_init (py ''base'')"]
  note t2 = backend_failure_empty_result
    [of ?fresh failing_inference_world "[0]" 16000 OtherError "WhisperBackend_init (py ''base'')"]
  note tI = backend_failure_empty_result
    [of ?fresh no_module_world "[0]" 16000 OtherError "WhisperBackend_init (py ''base'')"]
  note tL = backend_failure_empty_result
    [of ?full whisper_only_world "[0]" 16000 OtherError "WhisperBackend_init (py ''base'')"]
  note t3 = backend_failure_empty_result
    [of ?fresh failing_whisper_world "[0]" 16000 OtherError "WhisperBackend_init (py ''base'')"]
  note t4 = backend_failure_empty_result
    [of ?fresh failing_whisper_world "[0]" 16000 OtherError "loaded_whisper True"]
  note t5 = backend_failure_empty_result
    [of ?fresh sample_world "[0]" 16000 OtherError "loaded_whisper False"]
  note t6 = backend_failure_empty_result
    [of ?fresh bare_world "[0]" 16000 OtherError "WhisperBackend_init (py ''base'')"]
  have l: "ic_language ?fresh = py ''hi''" by (simp add: IndicConformerBackend_init_def)
  from t1 h1 have "fst (IndicConformerBackend_transcribe whisper_only_world ?fresh [0] 16000)
       = Inr (failed_result (ic_language ?fresh) (py ''indicconformer''))"
    by blast
  then have c1: "fst (IndicConformerBackend_transcribe whisper_only_world ?fresh [0] 16000)
       = Inr (failed_result (py ''hi'') (py ''indicconformer''))"
    by (simp only: l)
  from t1b h1b have "fst (IndicConformerBackend_transcribe sample_world ?half [0] 16000)
       = Inr (failed_result (ic_language ?half) (py ''indicconformer''))"
    by blast
  then have c1b: "fst (IndicConformerBackend_transcribe sample_world ?half [0] 16000)
       = Inr (failed_result (py ''hi'') (py ''indicconformer''))"
    by simp
  from t2 h2 have "fst (IndicConformerBackend_transcribe failing_inference_world ?fresh [0] 16000)
       = Inr (failed_result (ic_language ?fresh) (py ''indicconformer''))"
    by blast
  then have c2: "fst (IndicConformerBackend_transcribe failing_inference_world ?fresh [0] 16000)
       = Inr (failed_result (py ''hi'') (py ''indicconformer''))"
    by (simp only: l)
  have cI: "fst (IndicConformerBackend_transcribe no_module_world ?fresh [0] 16000)
       = Inl ImportError"
    using tI hI by blast
  from tL have "\<forall>m msk v lp txt.
        ic_model ?full = Some m \<and> ctc_encoder m \<and> ctc_decoder m \<and> ctc_mel_transform m
        \<and> ctc_language_mask m = Some msk \<and> ctc_vocab m = Some v
        \<and> ctc_inference whisper_only_world [0] 16000 = Inr lp
        \<and> decode_ctc (torch_log_softmax whisper_only_world) msk v lp = Inr txt \<longrightarrow>
      fst (IndicConformerBackend_transcribe whisper_only_world ?full [0] 16000)
        = Inr \<lparr>text' = str_strip txt, confidence = 85 / 100, language = ic_language ?full,
               backend = py ''indicconformer''\<rparr>"
    by blast
  from this [rule_format, OF hL]
  have cL: "fst (IndicConformerBackend_transcribe whisper_only_world ?full [0] 16000)
       = Inr \<lparr>text' = py ''a'', confidence = 85 / 100, language = py ''hi'',
              backend = py ''indicconformer''\<rparr>"
    by (simp add: str_strip_a)
  have c3: "fst (WhisperBackend_transcribe failing_whisper_world (WhisperBackend_init (py ''base'')) [0] 16000)
       = Inr (failed_result (py ''en'') (py ''whisper''))"
    using t3 h3 h3' by blast
  have c4: "fst (WhisperBackend_transcribe failing_whisper_world (loaded_whisper True) [0] 16000)
       = Inr (failed_result (py ''en'') (py ''whisper''))"
    using t4 h4 by blast
  have c5: "fst (WhisperBackend_transcribe sample_world (loaded_whisper False) [0] 16000)
       = Inr (failed_result (py ''en'') (py ''whisper''))"
    using t5 h5 by blast
  have c6: "fst (WhisperBackend_transcribe bare_world (WhisperBackend_init (py ''base'')) [0] 16000)
       = Inl ImportError"
    using t6 h6 by blast
  from a h2 hI h3 h3' h6 c1 c1b c2 cI cL c3 c4 c5 c6 show ?thesis by simp
qed

subsection \<open>Audio below the minimum length\<close>

text \<open>
  The counter is not idle: a request of 1600 samples in the sample world reaches the
  model once.
\<close>

lemma long_audio_calls_model:
  "inference_calls (snd (snd (handle_transcribe f32 sample_world \<lparr>router_global = None\<rparr>
                                 (pcm_request 1600 None)))) = 1"
proof -
  obtain a where a: "read_audio f32 (pcm_request 1600 None) (int (2 * 1600)) = Inr a"
      and la: "length a = 1600"
    using pcm_request_audio [of f32 1600 None "int (2 * 1600)"] by blast
  have b: "backends (STTRouter_init sample_world) (py ''indicconformer'')
       = Some (IndicConformer (IndicConformerBackend_init (py ''hi'')))"
    by (simp add: STTRouter_init_backends sample_world_available)
  have g: "get_backend_for_language (STTRouter_init sample_world) (py ''auto'')
      = Inr (Some (IndicConformer (IndicConformerBackend_init (py ''hi''))))"
    using registry_inv_init b by (rule resolve_auto_indic)
  have "inference_calls (snd (snd (STTRouter_transcribe sample_world (STTRouter_init sample_world)
            a (py ''auto'') 16000))) = 1"
    using g
    by (simp add: STTRouter_transcribe_def IndicConformerBackend_transcribe_cases
        IndicConformerBackend_init_def sample_world_ctc)
       (simp add: sample_world_def)
  then show ?thesis
    using a la
    by (auto simp: handle_transcribe_def pcm_request_def get_router_def Let_def str_lower_auto
        split: prod.splits sum.splits)
qed

text \<open>
  Claim C5 covers every audio of fewer than 1600 samples, the audio of no sample among
  them. A request whose \<open>Content-Length\<close> is 0, its body holding no sample, is answered
  with status 400 and the single member \<open>error\<close>: there is no text and no confidence in
  the answer.
\<close>

theorem short_audio_counterexample:
  "content_length empty_request = Inr 0
   \<and> pcm16_to_float32 (rfile_read empty_request 0) = Inr []
   \<and> length ([] :: real list) < 1600
   \<and> handle_transcribe (\<lambda>four. 0) sample_world \<lparr>router_global = None\<rparr> empty_request
       = (\<lparr>status = 400, body = [(py ''error'', JStr (py ''No audio data''))]\<rparr>,
          \<lparr>router_global = None\<rparr>, sample_world)
   \<and> map_of (body (fst (handle_transcribe (\<lambda>four. 0) sample_world \<lparr>router_global = None\<rparr>
                          empty_request))) (py ''text'') = None
   \<and> map_of (body (fst (handle_transcribe (\<lambda>four. 0) sample_world \<lparr>router_global = None\<rparr>
                          empty_request))) (py ''confidence'') = None"
  by (simp add: handle_transcribe_def empty_request_def pcm16_to_float32_def frombuffer_int16_def)

text \<open>
  Claim C5, amended. For every request whose \<open>Content-Length\<close> is an integer other than
  0 and whose bytes, read in that number and decoded, make fewer than 1600 samples, the
  handler answers with status 200, empty text, confidence zero, the requested language
  in lower case (\<open>'auto'\<close> without the header), the backend \<open>'none'\<close> and a note that the
  audio is too short. For every request whose \<open>Content-Length\<close> is 0 or absent it answers
  with status 400 and \<open>'No audio data'\<close>, whatever the body holds. In both cases nothing
  else happens: the router is neither built nor called, no model is loaded, and no
  backend model is invoked (the count of model invocations stays as it was).
\<close>

theorem short_audio_no_inference:
  "(\<forall>n a. content_length req = Inr n \<and> n \<noteq> 0 \<and> read_audio f32 req n = Inr a \<and> length a < 1600 \<longrightarrow>
       handle_transcribe f32 w s req
         = (too_short_response (str_lower (case x_language req of None \<Rightarrow> py ''auto'' | Some l \<Rightarrow> l)),
            s, w)
       \<and> inference_calls (snd (snd (handle_transcribe f32 w s req))) = inference_calls w)
   \<and> (content_length req = Inr 0 \<longrightarrow>
       handle_transcribe f32 w s req
         = (\<lparr>status = 400, body = [(py ''error'', JStr (py ''No audio data''))]\<rparr>, s, w)
       \<and> inference_calls (snd (snd (handle_transcribe f32 w s req))) = inference_calls w)
   \<and> too_short_response lang
       = \<lparr>status = 200,
          body = [(py ''text'', JStr []), (py ''confidence'', JNum 0), (py ''language'', JStr lang),
                  (py ''backend'', JStr (py ''none'')),
                  (py ''error'', JStr (py ''Audio too short (min 100ms)''))]\<rparr>"
  by (simp add: handle_transcribe_short handle_transcribe_empty too_short_response_def)

theorem short_audio_no_inference_witness:
  "content_length (pcm_request 800 (Some (py ''HI''))) = Inr 1600
   \<and> (\<exists>a. read_audio (\<lambda>four. 0) (pcm_request 800 (Some (py ''HI''))) 1600 = Inr a \<and> length a = 800)
   \<and> handle_transcribe (\<lambda>four. 0) sample_world \<lparr>router_global = None\<rparr>
        (pcm_request 800 (Some (py ''HI'')))
       = (too_short_response (py ''hi''), \<lparr>router_global = None\<rparr>, sample_world)
   \<and> inference_calls (snd (snd (handle_transcribe (\<lambda>four. 0) sample_world \<lparr>router_global = None\<rparr>
        (pcm_request 800 (Some (py ''HI'')))))) = 0
   \<and> content_length empty_request = Inr 0
   \<and> handle_transcribe (\<lambda>four. 0) sample_world \<lparr>router_global = None\<rparr> empty_request
       = (\<lparr>status = 400, body = [(py ''error'', JStr (py ''No audio data''))]\<rparr>,
          \<lparr>router_global = None\<rparr>, sample_world)
   \<and> read_audio (\<lambda>four. 0) (empty_request\<lparr>content_length := Inr 5\<rparr>) 5 = Inr []
   \<and> handle_transcribe (\<lambda>four. 0) sample_world \<lparr>router_global = None\<rparr>
        (empty_request\<lparr>content_length := Inr 5\<rparr>)
       = (too_short_response (py ''auto''), \<lparr>router_global = None\<rparr>, sample_world)
   \<and> length (rfile_read ((pcm_request 1600 None)\<lparr>content_length := Inr 0\<rparr>) 0) = 3200
   \<and> handle_transcribe (\<lambda>four. 0) sample_world \<lparr>router_global = None\<rparr>
        ((pcm_request 1600 None)\<lparr>content_length := Inr 0\<rparr>)
       = (\<lparr>status = 400, body = [(py ''error'', JStr (py ''No audio data''))]\<rparr>,
          \<lparr>router_global = None\<rparr>, sample_world)"
proof -
  let ?five = "empty_request\<lparr>content_length := Inr 5\<rparr>"
  let ?zero = "(pcm_request 1600 None)\<lparr>content_length := Inr 0\<rparr>"
  have f1: "content_length ?five = Inr 5" by simp
  have f2: "read_audio (\<lambda>four. 0) ?five 5 = Inr []"
    by (simp add: read_audio_def empty_request_def not_float32_pcm pcm16_to_float32_def
        frombuffer_int16_def)
  have f3: "str_lower (case x_language ?five of None \<Rightarrow> py ''auto'' | Some l \<Rightarrow> l) = py ''auto''"
    by (simp add: empty_request_def str_lower_auto)
  have z1: "content_length ?zero = Inr 0" by simp
  have z2: "length (rfile_read ?zero 0) = 3200" by (simp add: pcm_request_def)
  note t3 = short_audio_no_inference [of ?five "\<lambda>four. 0" sample_world "\<lparr>router_global = None\<rparr>" "py ''hi''"]
  note t4 = short_audio_no_inference [of ?zero "\<lambda>four. 0" sample_world "\<lparr>router_global = None\<rparr>" "py ''hi''"]
  from t3 have "\<forall>n a. content_length ?five = Inr n \<and> n \<noteq> 0
        \<and> read_audio (\<lambda>four. 0) ?five n = Inr a \<and> length a < 1600 \<longrightarrow>
       handle_transcribe (\<lambda>four. 0) sample_world \<lparr>router_global = None\<rparr> ?five
         = (too_short_response
              (str_lower (case x_language ?five of None \<Rightarrow> py ''auto'' | Some l \<Rightarrow> l)),
            \<lparr>router_global = None\<rparr>, sample_world)"
    by blast
  from this [rule_format, of 5 "[]"] f1 f2 have
    "handle_transcribe (\<lambda>four. 0) sample_world \<lparr>router_global = None\<rparr> ?five
         = (too_short_response
              (str_lower (case x_language ?five of None \<Rightarrow> py ''auto'' | Some l \<Rightarrow> l)),
            \<lparr>router_global = None\<rparr>, sample_world)"
    by simp
  then have five: "handle_transcribe (\<lambda>four. 0) sample_world \<lparr>router_global = None\<rparr> ?five
       = (too_short_response (py ''auto''), \<lparr>router_global = None\<rparr>, sample_world)"
    by (simp only: f3)
  from t4 z1 have zero: "handle_transcribe (\<lambda>four. 0) sample_world \<lparr>router_global = None\<rparr> ?zero
       = (\<lparr>status = 400, body = [(py ''error'', JStr (py ''No audio data''))]\<rparr>,
          \<lparr>router_global = None\<rparr>, sample_world)"
    by blast
  let ?req = "pcm_request 800 (Some (py ''HI''))"
  let ?s = "\<lparr>router_global = None\<rparr>"
  have c: "content_length ?req = Inr 1600" by (simp add: pcm_request_def)
  obtain a where a: "read_audio (\<lambda>four. 0) ?req 1600 = Inr a" and la: "length a = 800"
    using pcm_request_audio [of "\<lambda>four. 0" 800 "Some (py ''HI'')" 1600] by blast
  have l: "str_lower (case x_language ?req of None \<Rightarrow> py ''auto'' | Some l \<Rightarrow> l) = py ''hi''"
    by (simp add: pcm_request_def str_lower_def lower_char_def py_def)
  have e: "content_length empty_request = Inr 0" by (simp add: empty_request_def)
  have i: "inference_calls sample_world = 0" by (simp add: sample_world_def)
  note t1 = short_audio_no_inference [of ?req "\<lambda>four. 0" sample_world ?s "py ''hi''"]
  note t2 = short_audio_no_inference [of empty_request "\<lambda>four. 0" sample_world ?s "py ''hi''"]
  from t1 c a la l have
    "handle_transcribe (\<lambda>four. 0) sample_world ?s ?req = (too_short_response (py ''hi''), ?s, sample_world)"
    "inference_calls (snd (snd (handle_transcribe (\<lambda>four. 0) sample_world ?s ?req))) = 0"
    using i by auto
  moreover from t2 e have
    "handle_transcribe (\<lambda>four. 0) sample_world ?s empty_request
       = (\<lparr>status = 400, body = [(py ''error'', JStr (py ''No audio data''))]\<rparr>, ?s, sample_world)"
    by blast
  ultimately show ?thesis using c a la e f2 five z2 zero by blast
qed

end
